theory Spec2Isabelle
  imports Main "HOL-Library.Word"
begin

section \<open>The board: pins, the NeoPixel, the serial console, Wi-Fi\<close>

text \<open>
  The sketches drive four motor pins with \<^verbatim>\<open>digitalWrite\<close>, one NeoPixel with
  \<^verbatim>\<open>setPixelColor\<close> and \<^verbatim>\<open>show\<close>, block with \<^verbatim>\<open>delay\<close>, print
  to the serial console through \<^verbatim>\<open>DebugLog\<close> and poll \<^verbatim>\<open>WiFi.status()\<close>.
  Every call is recorded, in program order, in the \<open>trace\<close> of the device; the fields
  \<open>pins\<close>, \<open>pixel\<close> and \<open>led\<close> hold what the outputs currently are.
\<close>

datatype pin = MOTOR1_PIN | MOTOR2_PIN | MOTOR3_PIN | MOTOR4_PIN

datatype level = LOW | HIGH

text \<open>\<^verbatim>\<open>pixel.Color(r, g, b)\<close> takes three \<^verbatim>\<open>uint8_t\<close> components.\<close>

datatype color = Color "8 word" "8 word" "8 word"

text \<open>The values of \<^verbatim>\<open>wl_status_t\<close>; the sketches compare with \<open>WL_CONNECTED\<close> only.\<close>

datatype wl_status =
    WL_NO_SHIELD | WL_IDLE_STATUS | WL_NO_SSID_AVAIL | WL_SCAN_COMPLETED
  | WL_CONNECTED | WL_CONNECT_FAILED | WL_CONNECTION_LOST | WL_DISCONNECTED

datatype effect =
    DigitalWrite pin level
  | SetPixelColor nat color
  | Show
  | Delay nat
  | SerialPrintln string
  | WiFiBegin string string
  | ServerBegin
  | ClientFlush

text \<open>
  \<open>wifi\<close> is the environment: \<open>wifi s n\<close> is what the \<open>n\<close>-th call of
  \<^verbatim>\<open>WiFi.status()\<close> returns, and \<open>wifi_reads\<close> counts the calls made so far.
  \<open>pixel\<close> is the colour staged in the strip's buffer, \<open>led\<close> the colour the
  LED displays (latched by \<^verbatim>\<open>show\<close>).
\<close>

record device =
  debug_mode :: bool
  pins :: "pin \<Rightarrow> level"
  pixel :: color
  led :: color
  wifi :: "nat \<Rightarrow> wl_status"
  wifi_reads :: nat
  local_ip :: string
  trace :: "effect list"

definition emit :: "effect \<Rightarrow> device \<Rightarrow> device" where
  "emit e s = s\<lparr>trace := trace s @ [e]\<rparr>"

definition digitalWrite :: "pin \<Rightarrow> level \<Rightarrow> device \<Rightarrow> device" where
  "digitalWrite p v s = emit (DigitalWrite p v) (s\<lparr>pins := (pins s)(p := v)\<rparr>)"

text \<open>The strip has one pixel; the library ignores an index beyond the strip.\<close>

definition setPixelColor :: "nat \<Rightarrow> color \<Rightarrow> device \<Rightarrow> device" where
  "setPixelColor n c s =
     emit (SetPixelColor n c) (if n < 1 then s\<lparr>pixel := c\<rparr> else s)"

definition pixel_show :: "device \<Rightarrow> device" where
  "pixel_show s = emit Show (s\<lparr>led := pixel s\<rparr>)"

definition delay :: "nat \<Rightarrow> device \<Rightarrow> device" where
  "delay ms s = emit (Delay ms) s"

definition WiFi_begin :: "string \<Rightarrow> string \<Rightarrow> device \<Rightarrow> device" where
  "WiFi_begin ssid_arg password_arg s = emit (WiFiBegin ssid_arg password_arg) s"

definition WiFi_status :: "device \<Rightarrow> wl_status \<times> device" where
  "WiFi_status s = (wifi s (wifi_reads s), s\<lparr>wifi_reads := Suc (wifi_reads s)\<rparr>)"

definition server_begin :: "device \<Rightarrow> device" where
  "server_begin s = emit ServerBegin s"

definition client_flush :: "device \<Rightarrow> device" where
  "client_flush s = emit ClientFlush s"

text \<open>A block of statements runs them in order, each on the state the last one left.\<close>

definition block :: "('s \<Rightarrow> 's) list \<Rightarrow> 's \<Rightarrow> 's" where
  "block stmts s = fold (\<lambda>stmt. stmt) stmts s"

section \<open>The wristband sketch\<close>

definition ssid :: string where
  "ssid = ''Xiaomi_7842''"

definition password :: string where
  "password = ''12345678''"

definition DURATION_ON :: nat where
  "DURATION_ON = 200"

definition DURATION_OFF :: nat where
  "DURATION_OFF = 80"

definition DebugLog :: "string \<Rightarrow> device \<Rightarrow> device" where
  "DebugLog message s = (if debug_mode s then emit (SerialPrintln message) s else s)"

definition stopAllMotors :: "device \<Rightarrow> device" where
  "stopAllMotors = block
     [digitalWrite MOTOR1_PIN LOW,
      digitalWrite MOTOR2_PIN LOW,
      digitalWrite MOTOR3_PIN LOW,
      digitalWrite MOTOR4_PIN LOW,
      setPixelColor 0 (Color 255 255 255),
      pixel_show,
      DebugLog ''All motors stopped.'']"

definition upPulse :: "device \<Rightarrow> device" where
  "upPulse = block
     [DebugLog ''Starting Up Pulse (Motor 1)...'',
      digitalWrite MOTOR1_PIN HIGH,
      digitalWrite MOTOR2_PIN LOW,
      digitalWrite MOTOR3_PIN LOW,
      digitalWrite MOTOR4_PIN LOW,
      setPixelColor 0 (Color 255 0 0),
      pixel_show,
      delay DURATION_ON,
      stopAllMotors,
      delay DURATION_OFF]"

definition rightPulse :: "device \<Rightarrow> device" where
  "rightPulse = block
     [DebugLog ''Starting Right Pulse (Motor 2)...'',
      digitalWrite MOTOR1_PIN LOW,
      digitalWrite MOTOR2_PIN HIGH,
      digitalWrite MOTOR3_PIN LOW,
      digitalWrite MOTOR4_PIN LOW,
      setPixelColor 0 (Color 0 255 0),
      pixel_show,
      delay DURATION_ON,
      stopAllMotors,
      delay DURATION_OFF]"

definition leftPulse :: "device \<Rightarrow> device" where
  "leftPulse = block
     [DebugLog ''Starting Left Pulse (Motor 3)...'',
      digitalWrite MOTOR1_PIN LOW,
      digitalWrite MOTOR2_PIN LOW,
      digitalWrite MOTOR3_PIN HIGH,
      digitalWrite MOTOR4_PIN LOW,
      setPixelColor 0 (Color 0 0 255),
      pixel_show,
      delay DURATION_ON,
      stopAllMotors,
      delay DURATION_OFF]"

definition downPulse :: "device \<Rightarrow> device" where
  "downPulse = block
     [DebugLog ''Starting Down Pulse (Motor 4)...'',
      digitalWrite MOTOR1_PIN LOW,
      digitalWrite MOTOR2_PIN LOW,
      digitalWrite MOTOR3_PIN LOW,
      digitalWrite MOTOR4_PIN HIGH,
      setPixelColor 0 (Color 255 255 0),
      pixel_show,
      delay DURATION_ON,
      stopAllMotors,
      delay DURATION_OFF]"

definition clockwisePulse :: "device \<Rightarrow> device" where
  "clockwisePulse = block
     [DebugLog ''Starting Clockwise Sequence...'',
      \<comment> \<open>Motor 1\<close>
      digitalWrite MOTOR1_PIN HIGH,
      digitalWrite MOTOR2_PIN LOW,
      digitalWrite MOTOR3_PIN LOW,
      digitalWrite MOTOR4_PIN LOW,
      setPixelColor 0 (Color 255 0 0),
      pixel_show,
      delay DURATION_ON,
      stopAllMotors,
      delay DURATION_OFF,
      \<comment> \<open>Motor 2\<close>
      digitalWrite MOTOR1_PIN LOW,
      digitalWrite MOTOR2_PIN HIGH,
      digitalWrite MOTOR3_PIN LOW,
      digitalWrite MOTOR4_PIN LOW,
      setPixelColor 0 (Color 0 255 0),
      pixel_show,
      delay DURATION_ON,
      stopAllMotors,
      delay DURATION_OFF,
      \<comment> \<open>Motor 4\<close>
      digitalWrite MOTOR1_PIN LOW,
      digitalWrite MOTOR2_PIN LOW,
      digitalWrite MOTOR3_PIN LOW,
      digitalWrite MOTOR4_PIN HIGH,
      setPixelColor 0 (Color 255 255 0),
      pixel_show,
      delay DURATION_ON,
      stopAllMotors,
      delay DURATION_OFF,
      \<comment> \<open>Motor 3\<close>
      digitalWrite MOTOR1_PIN LOW,
      digitalWrite MOTOR2_PIN LOW,
      digitalWrite MOTOR3_PIN HIGH,
      digitalWrite MOTOR4_PIN LOW,
      setPixelColor 0 (Color 0 0 255),
      pixel_show,
      delay DURATION_ON,
      stopAllMotors,
      delay DURATION_OFF]"

definition counterClockwisePulse :: "device \<Rightarrow> device" where
  "counterClockwisePulse = block
     [DebugLog ''Starting Counterclockwise Sequence...'',
      \<comment> \<open>Motor 1\<close>
      digitalWrite MOTOR1_PIN HIGH,
      digitalWrite MOTOR2_PIN LOW,
      digitalWrite MOTOR3_PIN LOW,
      digitalWrite MOTOR4_PIN LOW,
      setPixelColor 0 (Color 255 0 0),
      pixel_show,
      delay DURATION_ON,
      stopAllMotors,
      delay DURATION_OFF,
      \<comment> \<open>Motor 3\<close>
      digitalWrite MOTOR1_PIN LOW,
      digitalWrite MOTOR2_PIN LOW,
      digitalWrite MOTOR3_PIN HIGH,
      digitalWrite MOTOR4_PIN LOW,
      setPixelColor 0 (Color 0 0 255),
      pixel_show,
      delay DURATION_ON,
      stopAllMotors,
      delay DURATION_OFF,
      \<comment> \<open>Motor 4\<close>
      digitalWrite MOTOR1_PIN LOW,
      digitalWrite MOTOR2_PIN LOW,
      digitalWrite MOTOR3_PIN LOW,
      digitalWrite MOTOR4_PIN HIGH,
      setPixelColor 0 (Color 255 255 0),
      pixel_show,
      delay DURATION_ON,
      stopAllMotors,
      delay DURATION_OFF,
      \<comment> \<open>Motor 2\<close>
      digitalWrite MOTOR1_PIN LOW,
      digitalWrite MOTOR2_PIN HIGH,
      digitalWrite MOTOR3_PIN LOW,
      digitalWrite MOTOR4_PIN LOW,
      setPixelColor 0 (Color 0 255 0),
      pixel_show,
      delay DURATION_ON,
      stopAllMotors,
      delay DURATION_OFF]"

definition allMotorsPulse :: "device \<Rightarrow> device" where
  "allMotorsPulse = block
     [DebugLog ''Starting All Motors Pulse (all motors)...'',
      digitalWrite MOTOR1_PIN HIGH,
      digitalWrite MOTOR2_PIN HIGH,
      digitalWrite MOTOR3_PIN HIGH,
      digitalWrite MOTOR4_PIN HIGH,
      setPixelColor 0 (Color 0 255 255),
      pixel_show,
      delay DURATION_ON,
      stopAllMotors,
      delay DURATION_OFF]"

text \<open>The \<^verbatim>\<open>switch (c)\<close> of \<^verbatim>\<open>loop()\<close>, on the byte read from the client.\<close>

definition loop_switch :: "char \<Rightarrow> device \<Rightarrow> device" where
  "loop_switch c s =
     (if c = CHR ''1'' then upPulse s
      else if c = CHR ''2'' then rightPulse s
      else if c = CHR ''3'' then leftPulse s
      else if c = CHR ''4'' then downPulse s
      else if c = CHR ''5'' then clockwisePulse s
      else if c = CHR ''6'' then counterClockwisePulse s
      else if c = CHR ''7'' then allMotorsPulse s
      else block
        [DebugLog ''Invalid command received. Stopping all motors.'',
         stopAllMotors] s)"

text \<open>
  The Wi-Fi join of \<^verbatim>\<open>setup()\<close> and the rejoin of \<^verbatim>\<open>loop()\<close> share one
  polling loop, which differs in the line it logs only:
  \<^verbatim>\<open>while (WiFi.status() != WL_CONNECTED && attempt_count < max_attempts)\<close>.
  The status is read at every test of the condition, before the counter is compared.
\<close>

definition max_attempts :: nat where
  "max_attempts = 20"

function wifi_wait :: "string \<Rightarrow> nat \<Rightarrow> device \<Rightarrow> device" where
  "wifi_wait message attempt_count s =
     (case WiFi_status s of (st, s1) \<Rightarrow>
        if st \<noteq> WL_CONNECTED \<and> attempt_count < max_attempts
        then wifi_wait message (attempt_count + 1)
               (block
                 [setPixelColor 0 (Color 255 255 0),
                  pixel_show,
                  DebugLog message,
                  delay 500] s1)
        else s1)"
  by pat_completeness auto
termination
  by (relation "measure (\<lambda>(message, attempt_count, s). max_attempts - attempt_count)") auto

text \<open>The part of \<^verbatim>\<open>setup()\<close> that joins the network, to the end of the function.\<close>

definition setup_wifi :: "device \<Rightarrow> device" where
  "setup_wifi s =
     (let s1 = block [DebugLog ''Connecting to Wi-Fi...'', WiFi_begin ssid password] s;
          s2 = wifi_wait ''Attempting to connect...'' 0 s1;
          (st, s3) = WiFi_status s2;
          s4 = (if st = WL_CONNECTED
                then block
                  [DebugLog ''Connected to Wi-Fi!'',
                   (\<lambda>d. DebugLog (local_ip d) d),
                   setPixelColor 0 (Color 0 255 0),
                   server_begin,
                   DebugLog ''Server started.''] s3
                else block
                  [DebugLog ''Failed to connect to Wi-Fi.'',
                   setPixelColor 0 (Color 255 0 0)] s3)
      in block [pixel_show, delay 1000] s4)"

text \<open>The part of \<^verbatim>\<open>loop()\<close> after the client is served: the disconnect check.\<close>

definition loop_wifi :: "device \<Rightarrow> device" where
  "loop_wifi s =
     (let (st0, s0) = WiFi_status s;
          s5 = (if st0 \<noteq> WL_CONNECTED
                then
                  (let s1 = block
                         [DebugLog ''Wi-Fi disconnected. Attempting to reconnect...'',
                          setPixelColor 0 (Color 255 0 0),
                          pixel_show,
                          WiFi_begin ssid password] s0;
                       s2 = wifi_wait ''Reconnecting...'' 0 s1;
                       (st, s3) = WiFi_status s2;
                       s4 = (if st = WL_CONNECTED
                             then block
                               [DebugLog ''Reconnected to Wi-Fi!'',
                                setPixelColor 0 (Color 0 255 0)] s3
                             else block
                               [DebugLog ''Failed to reconnect to Wi-Fi.'',
                                setPixelColor 0 (Color 255 0 0)] s3)
                   in block [pixel_show, delay 10] s4)
                else s0)
      in delay 5 s5)"

section \<open>The LED-control sketch\<close>

text \<open>
  What \<^verbatim>\<open>loop()\<close> of the LED-control sketch does with the byte read from the client,
  up to the \<^verbatim>\<open>break\<close>. Its \<^verbatim>\<open>DebugLog\<close> is the same function, and its
  \<^verbatim>\<open>debug_mode\<close> is initialised to \<^verbatim>\<open>false\<close> as well.
\<close>

definition led_loop_byte :: "char \<Rightarrow> device \<Rightarrow> device" where
  "led_loop_byte c s =
     (let s1 = (if c = CHR ''R'' then block
                  [setPixelColor 0 (Color 255 0 0),
                   pixel_show,
                   DebugLog ''Set color: Red''] s
                else if c = CHR ''G'' then block
                  [setPixelColor 0 (Color 0 255 0),
                   pixel_show,
                   DebugLog ''Set color: Green''] s
                else if c = CHR ''B'' then block
                  [setPixelColor 0 (Color 0 0 255),
                   pixel_show,
                   DebugLog ''Set color: Blue''] s
                else DebugLog ''Invalid command.'' s)
      in block
        [pixel_show,
         delay 10,
         DebugLog ''Color update sent to NeoPixel.'',
         client_flush] s1)"

section \<open>Observations\<close>

definition motor_pins :: "pin list" where
  "motor_pins = [MOTOR1_PIN, MOTOR2_PIN, MOTOR3_PIN, MOTOR4_PIN]"

definition energized :: "(pin \<Rightarrow> level) \<Rightarrow> pin list" where
  "energized ps = filter (\<lambda>p. ps p = HIGH) motor_pins"

definition motors_idle :: "device \<Rightarrow> bool" where
  "motors_idle s \<longleftrightarrow> energized (pins s) = []"

text \<open>The effects a piece of code adds to the trace.\<close>

definition emitted :: "(device \<Rightarrow> device) \<Rightarrow> device \<Rightarrow> effect list" where
  "emitted f s = drop (length (trace s)) (trace (f s))"

text \<open>The motors switched on, in the order of the \<open>HIGH\<close> writes.\<close>

fun activations :: "effect list \<Rightarrow> pin list" where
  "activations [] = []"
| "activations (DigitalWrite p HIGH # es) = p # activations es"
| "activations (e # es) = activations es"

text \<open>
  The outputs are replayed from the effects: the pin levels, the staged colour and the
  colour shown. \<open>phases\<close> lists, for every \<^verbatim>\<open>delay\<close>, which motors are on and
  which colour the LED shows while the program blocks, and for how long.
  \<open>energized_history\<close> lists the motors that are on after each single effect.
\<close>

type_synonym outputs = "(pin \<Rightarrow> level) \<times> color \<times> color"

definition outputs_of :: "device \<Rightarrow> outputs" where
  "outputs_of s = (pins s, pixel s, led s)"

fun apply_effect :: "effect \<Rightarrow> outputs \<Rightarrow> outputs" where
  "apply_effect (DigitalWrite p v) (ps, px, shown) = (ps(p := v), px, shown)"
| "apply_effect (SetPixelColor n c) (ps, px, shown) = (ps, if n < 1 then c else px, shown)"
| "apply_effect Show (ps, px, shown) = (ps, px, px)"
| "apply_effect e out = out"

fun phases :: "outputs \<Rightarrow> effect list \<Rightarrow> (pin list \<times> color \<times> nat) list" where
  "phases out [] = []"
| "phases (ps, px, shown) (Delay ms # es) =
     (energized ps, shown, ms) # phases (ps, px, shown) es"
| "phases out (e # es) = phases (apply_effect e out) es"

fun energized_history :: "(pin \<Rightarrow> level) \<Rightarrow> effect list \<Rightarrow> pin list list" where
  "energized_history ps [] = []"
| "energized_history ps (DigitalWrite p v # es) =
     energized (ps(p := v)) # energized_history (ps(p := v)) es"
| "energized_history ps (e # es) = energized ps # energized_history ps es"

text \<open>What \<open>DebugLog\<close> prints: the line when the flag is set, nothing otherwise.\<close>

definition debug_lines :: "bool \<Rightarrow> string \<Rightarrow> effect list" where
  "debug_lines b message = (if b then [SerialPrintln message] else [])"

text \<open>What \<open>stopAllMotors\<close> does, as effects.\<close>

definition idle_effects :: "bool \<Rightarrow> effect list" where
  "idle_effects b =
     [DigitalWrite MOTOR1_PIN LOW, DigitalWrite MOTOR2_PIN LOW,
      DigitalWrite MOTOR3_PIN LOW, DigitalWrite MOTOR4_PIN LOW,
      SetPixelColor 0 (Color 255 255 255), Show] @ debug_lines b ''All motors stopped.''"

subsection \<open>The motion table of the specification\<close>

text \<open>
  The specification describes the sketch as a table: a command symbol resolves to a motion
  definition, an ordered list of steps, and one generic executor runs any definition. A
  step names the actuators to energize, the indicator colour, and the on- and
  off-duration. The table below follows the specification's resolver (up, right, left,
  down, clockwise 1,2,4,3, counterclockwise 1,3,4,2, all at once, anything else the empty
  idle-all definition); the colours and durations are the constants of the sketch.
  \<open>step_effects\<close> is what the specification's executor does for one step.
\<close>

record MotionStep =
  actuators :: "pin list"
  step_color :: color
  on_ms :: nat
  off_ms :: nat

definition actuator_color :: "pin \<Rightarrow> color" where
  "actuator_color p =
     (case p of MOTOR1_PIN \<Rightarrow> Color 255 0 0 | MOTOR2_PIN \<Rightarrow> Color 0 255 0
      | MOTOR3_PIN \<Rightarrow> Color 0 0 255 | MOTOR4_PIN \<Rightarrow> Color 255 255 0)"

definition single_pulse :: "pin \<Rightarrow> MotionStep" where
  "single_pulse p =
     \<lparr>actuators = [p], step_color = actuator_color p, on_ms = 200, off_ms = 80\<rparr>"

definition motion_table :: "char \<Rightarrow> MotionStep list" where
  "motion_table c =
     (if c = CHR ''1'' then [single_pulse MOTOR1_PIN]
      else if c = CHR ''2'' then [single_pulse MOTOR2_PIN]
      else if c = CHR ''3'' then [single_pulse MOTOR3_PIN]
      else if c = CHR ''4'' then [single_pulse MOTOR4_PIN]
      else if c = CHR ''5'' then
        map single_pulse [MOTOR1_PIN, MOTOR2_PIN, MOTOR4_PIN, MOTOR3_PIN]
      else if c = CHR ''6'' then
        map single_pulse [MOTOR1_PIN, MOTOR3_PIN, MOTOR4_PIN, MOTOR2_PIN]
      else if c = CHR ''7'' then
        [\<lparr>actuators = [MOTOR1_PIN, MOTOR2_PIN, MOTOR3_PIN, MOTOR4_PIN],
          step_color = Color 0 255 255, on_ms = 200, off_ms = 80\<rparr>]
      else [])"

definition step_effects :: "bool \<Rightarrow> MotionStep \<Rightarrow> effect list" where
  "step_effects b st =
     map (\<lambda>p. DigitalWrite p (if p \<in> set (actuators st) then HIGH else LOW)) motor_pins
     @ [SetPixelColor 0 (step_color st), Show, Delay (on_ms st)]
     @ idle_effects b
     @ [Delay (off_ms st)]"

text \<open>The line each branch of the switch passes to \<open>DebugLog\<close> first.\<close>

definition start_message :: "char \<Rightarrow> string" where
  "start_message c =
     (if c = CHR ''1'' then ''Starting Up Pulse (Motor 1)...''
      else if c = CHR ''2'' then ''Starting Right Pulse (Motor 2)...''
      else if c = CHR ''3'' then ''Starting Left Pulse (Motor 3)...''
      else if c = CHR ''4'' then ''Starting Down Pulse (Motor 4)...''
      else if c = CHR ''5'' then ''Starting Clockwise Sequence...''
      else if c = CHR ''6'' then ''Starting Counterclockwise Sequence...''
      else if c = CHR ''7'' then ''Starting All Motors Pulse (all motors)...''
      else ''Invalid command received. Stopping all motors.'')"

definition command_effects :: "bool \<Rightarrow> char \<Rightarrow> effect list" where
  "command_effects b c =
     debug_lines b (start_message c)
     @ (if motion_table c = [] then idle_effects b
        else concat (map (step_effects b) (motion_table c)))"

subsection \<open>Polling the network\<close>

text \<open>
  \<open>failed_polls w i budget\<close> counts the status readings \<open>w i\<close>, \<open>w (i + 1)\<close>, ...
  that are not \<open>WL_CONNECTED\<close>, up to the first that is and up to \<open>budget\<close>.
\<close>

primrec failed_polls :: "(nat \<Rightarrow> wl_status) \<Rightarrow> nat \<Rightarrow> nat \<Rightarrow> nat" where
  "failed_polls w i 0 = 0"
| "failed_polls w i (Suc budget) =
     (if w i \<noteq> WL_CONNECTED then Suc (failed_polls w (Suc i) budget) else 0)"

definition attempt_effects :: "bool \<Rightarrow> string \<Rightarrow> effect list" where
  "attempt_effects b message =
     [SetPixelColor 0 (Color 255 255 0), Show] @ debug_lines b message @ [Delay 500]"

definition join_result_effects :: "bool \<Rightarrow> bool \<Rightarrow> string \<Rightarrow> effect list" where
  "join_result_effects b connected ip =
     (if connected
      then debug_lines b ''Connected to Wi-Fi!'' @ debug_lines b ip
           @ [SetPixelColor 0 (Color 0 255 0), ServerBegin]
           @ debug_lines b ''Server started.''
      else debug_lines b ''Failed to connect to Wi-Fi.''
           @ [SetPixelColor 0 (Color 255 0 0)])"

definition rejoin_result_effects :: "bool \<Rightarrow> bool \<Rightarrow> effect list" where
  "rejoin_result_effects b connected =
     (if connected
      then debug_lines b ''Reconnected to Wi-Fi!'' @ [SetPixelColor 0 (Color 0 255 0)]
      else debug_lines b ''Failed to reconnect to Wi-Fi.''
           @ [SetPixelColor 0 (Color 255 0 0)])"

subsection \<open>Sample devices\<close>

text \<open>
  A device as the sketches configure it (\<^verbatim>\<open>debug_mode = false\<close>) with the motors off
  and a network that never comes up, the same with the debug flag set, one whose
  network answers at the fourth status reading, and two whose network comes up just
  after the polling loop has given up: at the 22nd status reading (the one
  \<^verbatim>\<open>setup()\<close> takes after its loop) and at the 23rd (the one \<^verbatim>\<open>loop()\<close>
  takes after its loop).
\<close>

definition bench :: device where
  "bench =
     \<lparr>debug_mode = False, pins = (\<lambda>p. LOW), pixel = Color 0 0 0, led = Color 0 0 0,
      wifi = (\<lambda>n. WL_DISCONNECTED), wifi_reads = 0, local_ip = ''192.168.31.7'',
      trace = []\<rparr>"

definition bench_debug :: device where
  "bench_debug = bench\<lparr>debug_mode := True\<rparr>"

definition bench_slow_network :: device where
  "bench_slow_network =
     bench\<lparr>wifi := (\<lambda>n. if n < 3 then WL_IDLE_STATUS else WL_CONNECTED)\<rparr>"

definition bench_late_join :: device where
  "bench_late_join =
     bench\<lparr>wifi := (\<lambda>n. if n < 21 then WL_DISCONNECTED else WL_CONNECTED)\<rparr>"

definition bench_late_rejoin :: device where
  "bench_late_rejoin =
     bench\<lparr>wifi := (\<lambda>n. if n < 22 then WL_DISCONNECTED else WL_CONNECTED)\<rparr>"

section \<open>Helper facts\<close>

subsection \<open>The fields after each primitive\<close>

lemma emit_fields:
  "debug_mode (emit e s) = debug_mode s" "pins (emit e s) = pins s"
  "pixel (emit e s) = pixel s" "led (emit e s) = led s" "wifi (emit e s) = wifi s"
  "wifi_reads (emit e s) = wifi_reads s" "local_ip (emit e s) = local_ip s"
  "trace (emit e s) = trace s @ [e]"
  by (simp_all add: emit_def)

lemma digitalWrite_fields:
  "debug_mode (digitalWrite p v s) = debug_mode s"
  "pins (digitalWrite p v s) = (pins s)(p := v)"
  "pixel (digitalWrite p v s) = pixel s" "led (digitalWrite p v s) = led s"
  "wifi (digitalWrite p v s) = wifi s" "wifi_reads (digitalWrite p v s) = wifi_reads s"
  "local_ip (digitalWrite p v s) = local_ip s"
  "trace (digitalWrite p v s) = trace s @ [DigitalWrite p v]"
  by (simp_all add: digitalWrite_def emit_def)

lemma setPixelColor_fields:
  "debug_mode (setPixelColor n c s) = debug_mode s"
  "pins (setPixelColor n c s) = pins s"
  "pixel (setPixelColor n c s) = (if n < 1 then c else pixel s)"
  "led (setPixelColor n c s) = led s"
  "wifi (setPixelColor n c s) = wifi s" "wifi_reads (setPixelColor n c s) = wifi_reads s"
  "local_ip (setPixelColor n c s) = local_ip s"
  "trace (setPixelColor n c s) = trace s @ [SetPixelColor n c]"
  by (simp_all add: setPixelColor_def emit_def)

lemma pixel_show_fields:
  "debug_mode (pixel_show s) = debug_mode s"
  "pins (pixel_show s) = pins s"
  "pixel (pixel_show s) = pixel s"
  "led (pixel_show s) = pixel s"
  "wifi (pixel_show s) = wifi s" "wifi_reads (pixel_show s) = wifi_reads s"
  "local_ip (pixel_show s) = local_ip s"
  "trace (pixel_show s) = trace s @ [Show]"
  by (simp_all add: pixel_show_def emit_def)

lemma delay_fields:
  "debug_mode (delay ms s) = debug_mode s"
  "pins (delay ms s) = pins s"
  "pixel (delay ms s) = pixel s"
  "led (delay ms s) = led s"
  "wifi (delay ms s) = wifi s" "wifi_reads (delay ms s) = wifi_reads s"
  "local_ip (delay ms s) = local_ip s"
  "trace (delay ms s) = trace s @ [Delay ms]"
  by (simp_all add: delay_def emit_def)

lemma DebugLog_fields:
  "debug_mode (DebugLog m s) = debug_mode s"
  "pins (DebugLog m s) = pins s"
  "pixel (DebugLog m s) = pixel s"
  "led (DebugLog m s) = led s"
  "wifi (DebugLog m s) = wifi s" "wifi_reads (DebugLog m s) = wifi_reads s"
  "local_ip (DebugLog m s) = local_ip s"
  "trace (DebugLog m s) = trace s @ debug_lines (debug_mode s) m"
  by (simp_all add: DebugLog_def emit_def debug_lines_def)

lemmas prim_fields =
  digitalWrite_fields setPixelColor_fields pixel_show_fields delay_fields DebugLog_fields

lemma stopAllMotors_fields:
  "debug_mode (stopAllMotors s) = debug_mode s"
  "pins (stopAllMotors s) = (\<lambda>p. LOW)"
  "pixel (stopAllMotors s) = Color 255 255 255"
  "led (stopAllMotors s) = Color 255 255 255"
  "wifi (stopAllMotors s) = wifi s" "wifi_reads (stopAllMotors s) = wifi_reads s"
  "local_ip (stopAllMotors s) = local_ip s"
  "trace (stopAllMotors s) = trace s @ idle_effects (debug_mode s)"
proof -
  show "pins (stopAllMotors s) = (\<lambda>p. LOW)"
    by (rule ext, case_tac p) (simp_all add: stopAllMotors_def block_def prim_fields)
qed (simp_all add: stopAllMotors_def block_def prim_fields idle_effects_def)

lemmas pulse_defs =
  upPulse_def rightPulse_def leftPulse_def downPulse_def clockwisePulse_def
  counterClockwisePulse_def allMotorsPulse_def

lemmas step_fields = prim_fields stopAllMotors_fields

lemma loop_switch_pins: "pins (loop_switch c s) = (\<lambda>p. LOW)"
  by (simp add: loop_switch_def pulse_defs block_def step_fields)

lemma loop_switch_debug: "debug_mode (loop_switch c s) = debug_mode s"
  by (simp add: loop_switch_def pulse_defs block_def step_fields)


subsection \<open>The switch emits the effects of the table\<close>

lemma trace_loop_switch:
  "trace (loop_switch c s) = trace s @ command_effects (debug_mode s) c"
  by (simp add: loop_switch_def pulse_defs block_def step_fields command_effects_def
      start_message_def motion_table_def step_effects_def single_pulse_def
      actuator_color_def motor_pins_def DURATION_ON_def DURATION_OFF_def)

lemma emitted_loop_switch:
  "emitted (loop_switch c) s = command_effects (debug_mode s) c"
  by (simp add: emitted_def trace_loop_switch)

subsection \<open>The polling loop\<close>

lemma WiFi_begin_fields:
  "debug_mode (WiFi_begin a b s) = debug_mode s"
  "pins (WiFi_begin a b s) = pins s"
  "pixel (WiFi_begin a b s) = pixel s"
  "led (WiFi_begin a b s) = led s"
  "wifi (WiFi_begin a b s) = wifi s" "wifi_reads (WiFi_begin a b s) = wifi_reads s"
  "local_ip (WiFi_begin a b s) = local_ip s"
  "trace (WiFi_begin a b s) = trace s @ [WiFiBegin a b]"
  by (simp_all add: WiFi_begin_def emit_def)

lemma server_begin_fields:
  "debug_mode (server_begin s) = debug_mode s"
  "pins (server_begin s) = pins s"
  "pixel (server_begin s) = pixel s"
  "led (server_begin s) = led s"
  "wifi (server_begin s) = wifi s" "wifi_reads (server_begin s) = wifi_reads s"
  "local_ip (server_begin s) = local_ip s"
  "trace (server_begin s) = trace s @ [ServerBegin]"
  by (simp_all add: server_begin_def emit_def)

lemma client_flush_fields:
  "debug_mode (client_flush s) = debug_mode s"
  "pins (client_flush s) = pins s"
  "pixel (client_flush s) = pixel s"
  "led (client_flush s) = led s"
  "wifi (client_flush s) = wifi s" "wifi_reads (client_flush s) = wifi_reads s"
  "local_ip (client_flush s) = local_ip s"
  "trace (client_flush s) = trace s @ [ClientFlush]"
  by (simp_all add: client_flush_def emit_def)

lemma WiFi_status_fields:
  "fst (WiFi_status s) = wifi s (wifi_reads s)"
  "debug_mode (snd (WiFi_status s)) = debug_mode s"
  "pins (snd (WiFi_status s)) = pins s"
  "pixel (snd (WiFi_status s)) = pixel s"
  "led (snd (WiFi_status s)) = led s"
  "wifi (snd (WiFi_status s)) = wifi s"
  "wifi_reads (snd (WiFi_status s)) = Suc (wifi_reads s)"
  "local_ip (snd (WiFi_status s)) = local_ip s"
  "trace (snd (WiFi_status s)) = trace s"
  by (simp_all add: WiFi_status_def)

lemmas wifi_fields = prim_fields WiFi_begin_fields server_begin_fields WiFi_status_fields

declare wifi_wait.simps [simp del]

lemma wifi_wait_unfold:
  "wifi_wait message a s =
     (if wifi s (wifi_reads s) \<noteq> WL_CONNECTED \<and> a < max_attempts
      then wifi_wait message (Suc a)
             (delay 500 (DebugLog message (pixel_show
                (setPixelColor 0 (Color 255 255 0) (snd (WiFi_status s))))))
      else snd (WiFi_status s))"
  by (subst wifi_wait.simps) (simp add: block_def WiFi_status_def)


lemma wifi_wait_run:
  "max_attempts - a = n \<Longrightarrow>
   trace (wifi_wait message a s) =
     trace s @ concat (replicate (failed_polls (wifi s) (wifi_reads s) n)
                        (attempt_effects (debug_mode s) message)) \<and>
   wifi_reads (wifi_wait message a s) =
     Suc (wifi_reads s + failed_polls (wifi s) (wifi_reads s) n) \<and>
   pixel (wifi_wait message a s) =
     (if failed_polls (wifi s) (wifi_reads s) n = 0 then pixel s else Color 255 255 0) \<and>
   led (wifi_wait message a s) =
     (if failed_polls (wifi s) (wifi_reads s) n = 0 then led s else Color 255 255 0) \<and>
   debug_mode (wifi_wait message a s) = debug_mode s \<and>
   wifi (wifi_wait message a s) = wifi s \<and>
   local_ip (wifi_wait message a s) = local_ip s \<and>
   pins (wifi_wait message a s) = pins s"
proof (induction n arbitrary: a s)
  case 0
  then have "\<not> a < max_attempts" by simp
  then have "wifi_wait message a s = snd (WiFi_status s)"
    by (subst wifi_wait_unfold) simp
  then show ?case by (simp add: wifi_fields)
next
  case (Suc n)
  then have a: "a < max_attempts" and n: "max_attempts - Suc a = n" by simp_all
  show ?case
  proof (cases "wifi s (wifi_reads s) = WL_CONNECTED")
    case True
    then have "wifi_wait message a s = snd (WiFi_status s)"
      by (subst wifi_wait_unfold) simp
    with True show ?thesis by (simp add: wifi_fields)
  next
    case False
    define s' where "s' = delay 500 (DebugLog message (pixel_show
                (setPixelColor 0 (Color 255 255 0) (snd (WiFi_status s)))))"
    have step: "wifi_wait message a s = wifi_wait message (Suc a) s'"
      using False a unfolding s'_def by (subst wifi_wait_unfold) simp
    have s': "trace s' = trace s @ attempt_effects (debug_mode s) message"
      "wifi_reads s' = Suc (wifi_reads s)" "pixel s' = Color 255 255 0"
      "led s' = Color 255 255 0" "debug_mode s' = debug_mode s" "wifi s' = wifi s"
      "local_ip s' = local_ip s" "pins s' = pins s"
      by (simp_all add: s'_def wifi_fields attempt_effects_def)
    from Suc.IH [OF n, of s'] False show ?thesis
      by (simp add: step s')
  qed
qed

lemma failed_polls_le: "failed_polls w i n \<le> n"
  by (induction n arbitrary: i) auto

lemma failed_polls_all:
  "(\<And>j. j < n \<Longrightarrow> w (i + j) \<noteq> WL_CONNECTED) \<Longrightarrow> failed_polls w i n = n"
proof (induction n arbitrary: i)
  case 0
  show ?case by simp
next
  case (Suc n)
  have "w i \<noteq> WL_CONNECTED" using Suc.prems [of 0] by simp
  moreover have "failed_polls w (Suc i) n = n"
    using Suc.prems [of "Suc _"] by (intro Suc.IH) simp
  ultimately show ?case by simp
qed

lemma failed_polls_first:
  "(\<And>j. j < k \<Longrightarrow> w (i + j) \<noteq> WL_CONNECTED) \<Longrightarrow> w (i + k) = WL_CONNECTED \<Longrightarrow>
   k \<le> n \<Longrightarrow> failed_polls w i n = k"
proof (induction n arbitrary: i k)
  case 0
  then show ?case by simp
next
  case (Suc n)
  show ?case
  proof (cases k)
    case 0
    with Suc.prems show ?thesis by simp
  next
    case (Suc k')
    have "w i \<noteq> WL_CONNECTED" using Suc.prems(1) [of 0] Suc by simp
    moreover have "failed_polls w (Suc i) n = k'"
    proof (rule Suc.IH)
      fix j assume "j < k'"
      then show "w (Suc i + j) \<noteq> WL_CONNECTED"
        using Suc.prems(1) [of "Suc j"] Suc by simp
    next
      show "w (Suc i + k') = WL_CONNECTED" using Suc.prems(2) Suc by simp
    next
      show "k' \<le> n" using Suc.prems(3) Suc by simp
    qed
    ultimately show ?thesis using Suc by simp
  qed
qed

lemma count_attempts:
  "count_list (concat (replicate k (attempt_effects b message))) (Delay 500) = k"
  by (induction k) (simp_all add: attempt_effects_def debug_lines_def)


lemma wifi_wait_start:
  "trace (wifi_wait message 0 s) =
     trace s @ concat (replicate (failed_polls (wifi s) (wifi_reads s) max_attempts)
                        (attempt_effects (debug_mode s) message))"
  "wifi_reads (wifi_wait message 0 s) =
     Suc (wifi_reads s + failed_polls (wifi s) (wifi_reads s) max_attempts)"
  "pixel (wifi_wait message 0 s) =
     (if failed_polls (wifi s) (wifi_reads s) max_attempts = 0 then pixel s
      else Color 255 255 0)"
  "led (wifi_wait message 0 s) =
     (if failed_polls (wifi s) (wifi_reads s) max_attempts = 0 then led s
      else Color 255 255 0)"
  "debug_mode (wifi_wait message 0 s) = debug_mode s"
  "wifi (wifi_wait message 0 s) = wifi s"
  "local_ip (wifi_wait message 0 s) = local_ip s"
  "pins (wifi_wait message 0 s) = pins s"
  using wifi_wait_run [of 0 max_attempts message s] by simp_all

lemma setup_wifi_trace:
  "trace (setup_wifi s) =
     trace s @ debug_lines (debug_mode s) ''Connecting to Wi-Fi...'' @ [WiFiBegin ssid password]
     @ concat (replicate (failed_polls (wifi s) (wifi_reads s) max_attempts)
                 (attempt_effects (debug_mode s) ''Attempting to connect...''))
     @ join_result_effects (debug_mode s)
         (wifi s (Suc (wifi_reads s + failed_polls (wifi s) (wifi_reads s) max_attempts))
            = WL_CONNECTED) (local_ip s)
     @ [Show, Delay 1000]"
  by (simp add: setup_wifi_def Let_def split_beta block_def wifi_fields wifi_wait_start
      join_result_effects_def)

lemma setup_wifi_fields:
  "pixel (setup_wifi s) =
     (if wifi s (Suc (wifi_reads s + failed_polls (wifi s) (wifi_reads s) max_attempts))
           = WL_CONNECTED
      then Color 0 255 0 else Color 255 0 0)"
  "led (setup_wifi s) = pixel (setup_wifi s)"
  "wifi_reads (setup_wifi s) =
     wifi_reads s + failed_polls (wifi s) (wifi_reads s) max_attempts + 2"
  "pins (setup_wifi s) = pins s"
  by (simp_all add: setup_wifi_def Let_def split_beta block_def wifi_fields wifi_wait_start)

lemma loop_wifi_trace:
  "trace (loop_wifi s) =
     trace s
     @ (if wifi s (wifi_reads s) = WL_CONNECTED then []
        else debug_lines (debug_mode s) ''Wi-Fi disconnected. Attempting to reconnect...''
          @ [SetPixelColor 0 (Color 255 0 0), Show, WiFiBegin ssid password]
          @ concat (replicate (failed_polls (wifi s) (Suc (wifi_reads s)) max_attempts)
                      (attempt_effects (debug_mode s) ''Reconnecting...''))
          @ rejoin_result_effects (debug_mode s)
              (wifi s (Suc (Suc (wifi_reads s)
                  + failed_polls (wifi s) (Suc (wifi_reads s)) max_attempts)) = WL_CONNECTED)
          @ [Show, Delay 10])
     @ [Delay 5]"
  by (simp add: loop_wifi_def Let_def split_beta block_def wifi_fields wifi_wait_start
      rejoin_result_effects_def)

lemma loop_wifi_fields:
  "pixel (loop_wifi s) =
     (if wifi s (wifi_reads s) = WL_CONNECTED then pixel s
      else if wifi s (Suc (Suc (wifi_reads s)
                  + failed_polls (wifi s) (Suc (wifi_reads s)) max_attempts)) = WL_CONNECTED
      then Color 0 255 0 else Color 255 0 0)"
  "led (loop_wifi s) =
     (if wifi s (wifi_reads s) = WL_CONNECTED then led s else pixel (loop_wifi s))"
  "wifi_reads (loop_wifi s) =
     (if wifi s (wifi_reads s) = WL_CONNECTED then Suc (wifi_reads s)
      else wifi_reads s + failed_polls (wifi s) (Suc (wifi_reads s)) max_attempts + 3)"
  "pins (loop_wifi s) = pins s"
  by (simp_all add: loop_wifi_def Let_def split_beta block_def wifi_fields wifi_wait_start)

lemma count_debug_lines [simp]:
  "count_list (debug_lines b m) (Delay n) = 0" "count_list (debug_lines b m) (WiFiBegin x y) = 0"
  by (simp_all add: debug_lines_def)

lemma count_attempts_begin:
  "count_list (concat (replicate k (attempt_effects b message))) (WiFiBegin x y) = 0"
  by (induction k) (simp_all add: attempt_effects_def)

lemma setup_attempts:
  "count_list (emitted setup_wifi s) (Delay 500)
     = failed_polls (wifi s) (wifi_reads s) max_attempts"
  "count_list (emitted setup_wifi s) (WiFiBegin ssid password) = 1"
  by (simp_all add: emitted_def setup_wifi_trace count_attempts count_attempts_begin
      join_result_effects_def)

lemma loop_attempts:
  "count_list (emitted loop_wifi s) (Delay 500)
     = (if wifi s (wifi_reads s) = WL_CONNECTED then 0
        else failed_polls (wifi s) (Suc (wifi_reads s)) max_attempts)"
  "count_list (emitted loop_wifi s) (WiFiBegin ssid password)
     = (if wifi s (wifi_reads s) = WL_CONNECTED then 0 else 1)"
  by (simp_all add: emitted_def loop_wifi_trace count_attempts count_attempts_begin
      rejoin_result_effects_def)


subsection \<open>Evaluating the table\<close>

lemmas table_defs =
  command_effects_def motion_table_def step_effects_def single_pulse_def actuator_color_def
  motor_pins_def start_message_def idle_effects_def debug_lines_def energized_def

lemma emitted_pulses:
  "emitted upPulse s = command_effects (debug_mode s) (CHR ''1'')"
  "emitted rightPulse s = command_effects (debug_mode s) (CHR ''2'')"
  "emitted leftPulse s = command_effects (debug_mode s) (CHR ''3'')"
  "emitted downPulse s = command_effects (debug_mode s) (CHR ''4'')"
  "emitted clockwisePulse s = command_effects (debug_mode s) (CHR ''5'')"
  "emitted counterClockwisePulse s = command_effects (debug_mode s) (CHR ''6'')"
  "emitted allMotorsPulse s = command_effects (debug_mode s) (CHR ''7'')"
  using emitted_loop_switch [of "CHR ''1''" s] emitted_loop_switch [of "CHR ''2''" s]
    emitted_loop_switch [of "CHR ''3''" s] emitted_loop_switch [of "CHR ''4''" s]
    emitted_loop_switch [of "CHR ''5''" s] emitted_loop_switch [of "CHR ''6''" s]
    emitted_loop_switch [of "CHR ''7''" s]
  by (simp_all add: emitted_def loop_switch_def)

lemma phases_single:
  "phases out (command_effects b (CHR ''1'')) =
     [([MOTOR1_PIN], Color 255 0 0, 200), ([], Color 255 255 255, 80)]"
  "phases out (command_effects b (CHR ''2'')) =
     [([MOTOR2_PIN], Color 0 255 0, 200), ([], Color 255 255 255, 80)]"
  "phases out (command_effects b (CHR ''3'')) =
     [([MOTOR3_PIN], Color 0 0 255, 200), ([], Color 255 255 255, 80)]"
  "phases out (command_effects b (CHR ''4'')) =
     [([MOTOR4_PIN], Color 255 255 0, 200), ([], Color 255 255 255, 80)]"
  "phases out (command_effects b (CHR ''7'')) =
     [([MOTOR1_PIN, MOTOR2_PIN, MOTOR3_PIN, MOTOR4_PIN], Color 0 255 255, 200),
      ([], Color 255 255 255, 80)]"
  by (cases out; cases b; simp add: table_defs)+

lemma phases_clockwise:
  "phases out (command_effects b (CHR ''5'')) =
     [([MOTOR1_PIN], Color 255 0 0, 200), ([], Color 255 255 255, 80),
      ([MOTOR2_PIN], Color 0 255 0, 200), ([], Color 255 255 255, 80),
      ([MOTOR4_PIN], Color 255 255 0, 200), ([], Color 255 255 255, 80),
      ([MOTOR3_PIN], Color 0 0 255, 200), ([], Color 255 255 255, 80)]"
  by (cases out; cases b) (simp_all add: table_defs)

lemma phases_counterclockwise:
  "phases out (command_effects b (CHR ''6'')) =
     [([MOTOR1_PIN], Color 255 0 0, 200), ([], Color 255 255 255, 80),
      ([MOTOR3_PIN], Color 0 0 255, 200), ([], Color 255 255 255, 80),
      ([MOTOR4_PIN], Color 255 255 0, 200), ([], Color 255 255 255, 80),
      ([MOTOR2_PIN], Color 0 255 0, 200), ([], Color 255 255 255, 80)]"
  by (cases out; cases b) (simp_all add: table_defs)

lemma phases_invalid:
  "c \<notin> set ''1234567'' \<Longrightarrow> phases out (command_effects b c) = []"
  by (cases out; cases b) (simp_all add: table_defs)

lemma activations_commands:
  "activations (command_effects b (CHR ''1'')) = [MOTOR1_PIN]"
  "activations (command_effects b (CHR ''2'')) = [MOTOR2_PIN]"
  "activations (command_effects b (CHR ''3'')) = [MOTOR3_PIN]"
  "activations (command_effects b (CHR ''4'')) = [MOTOR4_PIN]"
  "activations (command_effects b (CHR ''5'')) =
     [MOTOR1_PIN, MOTOR2_PIN, MOTOR4_PIN, MOTOR3_PIN]"
  "activations (command_effects b (CHR ''6'')) =
     [MOTOR1_PIN, MOTOR3_PIN, MOTOR4_PIN, MOTOR2_PIN]"
  "activations (command_effects b (CHR ''7'')) =
     [MOTOR1_PIN, MOTOR2_PIN, MOTOR3_PIN, MOTOR4_PIN]"
  by (cases b; simp add: table_defs)+

lemma activations_invalid:
  "c \<notin> set ''1234567'' \<Longrightarrow> activations (command_effects b c) = []"
  by (cases b) (simp_all add: table_defs)

lemma phases_state_free:
  "phases out (command_effects b c) = phases out' (command_effects b' c)"
  by (cases out; cases out'; cases b; cases b') (simp_all add: table_defs)

lemma history_at_most_one:
  "energized ps = [] \<Longrightarrow> c \<noteq> CHR ''7'' \<Longrightarrow>
   list_all (\<lambda>l. length l \<le> 1) (energized_history ps (command_effects b c))"
  by (cases b) (simp_all add: table_defs split: if_splits)

lemma history_all_four:
  "\<not> list_all (\<lambda>l. length l \<le> 1) (energized_history ps (command_effects b (CHR ''7'')))"
  by (cases b) (simp_all add: table_defs)

lemma on_phase_sizes:
  "c \<in> set ''123456'' \<Longrightarrow>
   map (\<lambda>(motors, shown, ms). length motors) (phases out (command_effects b c)) =
     (if c \<in> set ''1234'' then [1, 0] else [1, 0, 1, 0, 1, 0, 1, 0])"
  by (cases out; cases b) (auto simp add: table_defs)

lemma loop_switch_outputs:
  "outputs_of (loop_switch c s) = (\<lambda>p. LOW, Color 255 255 255, Color 255 255 255)"
  by (simp add: outputs_of_def loop_switch_def pulse_defs block_def step_fields)

lemma stopAllMotors_outputs:
  "outputs_of (stopAllMotors s) = (\<lambda>p. LOW, Color 255 255 255, Color 255 255 255)"
  by (simp add: outputs_of_def step_fields)

lemma motors_idle_outputs: "pins s = (\<lambda>p. LOW) \<Longrightarrow> motors_idle s"
  by (simp add: motors_idle_def energized_def motor_pins_def)

subsection \<open>The replay agrees with the device; the motors stay idle between commands\<close>

lemma replay_primitives:
  "outputs_of (digitalWrite p v s) = apply_effect (DigitalWrite p v) (outputs_of s)"
  "outputs_of (setPixelColor n c s) = apply_effect (SetPixelColor n c) (outputs_of s)"
  "outputs_of (pixel_show s) = apply_effect Show (outputs_of s)"
  "outputs_of (delay ms s) = apply_effect (Delay ms) (outputs_of s)"
  "outputs_of (DebugLog m s) = fold apply_effect (debug_lines (debug_mode s) m) (outputs_of s)"
  by (simp_all add: outputs_of_def prim_fields debug_lines_def)

lemma all_low:
  "ps(MOTOR1_PIN := LOW, MOTOR2_PIN := LOW, MOTOR3_PIN := LOW, MOTOR4_PIN := LOW) =
     (\<lambda>p. LOW)"
proof
  fix p
  show "(ps(MOTOR1_PIN := LOW, MOTOR2_PIN := LOW, MOTOR3_PIN := LOW, MOTOR4_PIN := LOW)) p
          = LOW"
    by (cases p) simp_all
qed

lemma replay_idle:
  "fold apply_effect (idle_effects b) (ps, px, shown) =
     (\<lambda>p. LOW, Color 255 255 255, Color 255 255 255)"
  by (cases b) (simp_all add: idle_effects_def debug_lines_def all_low)

lemma replay_step:
  "fold apply_effect (step_effects b st) out =
     (\<lambda>p. LOW, Color 255 255 255, Color 255 255 255)"
  by (cases "fold apply_effect
        (map (\<lambda>p. DigitalWrite p (if p \<in> set (actuators st) then HIGH else LOW)) motor_pins
         @ [SetPixelColor 0 (step_color st), Show, Delay (on_ms st)]) out")
    (simp add: step_effects_def replay_idle)

lemma replay_steps:
  "steps \<noteq> [] \<Longrightarrow> fold apply_effect (concat (map (step_effects b) steps)) out =
     (\<lambda>p. LOW, Color 255 255 255, Color 255 255 255)"
  by (induction steps arbitrary: out rule: rev_induct) (simp_all add: replay_step)

lemma replay_debug_lines: "fold apply_effect (debug_lines b m) out = out"
  by (cases out) (simp add: debug_lines_def)

lemma replay_loop_switch:
  "fold apply_effect (emitted (loop_switch c) s) (outputs_of s) = outputs_of (loop_switch c s)"
  by (cases "outputs_of s")
    (simp add: emitted_loop_switch loop_switch_outputs command_effects_def replay_debug_lines
      replay_idle replay_steps)

lemma motors_idle_wifi:
  "motors_idle (setup_wifi s) = motors_idle s" "motors_idle (loop_wifi s) = motors_idle s"
  by (simp_all add: motors_idle_def setup_wifi_fields loop_wifi_fields)

lemma motors_idle_stopAllMotors: "motors_idle (stopAllMotors s)"
  by (simp add: motors_idle_outputs stopAllMotors_fields)

lemma motors_idle_loop_switch: "motors_idle (loop_switch c s)"
  by (simp add: motors_idle_outputs loop_switch_pins)

subsection \<open>The join, by what the network answers\<close>

lemma failed_polls_none:
  "\<forall>j\<le>m. w (i + j) \<noteq> WL_CONNECTED \<Longrightarrow> n \<le> Suc m \<Longrightarrow> failed_polls w i n = n"
  by (rule failed_polls_all) simp

lemma setup_wifi_failed:
  assumes "\<forall>j\<le>21. wifi s (wifi_reads s + j) \<noteq> WL_CONNECTED"
  shows "emitted setup_wifi s =
           debug_lines (debug_mode s) ''Connecting to Wi-Fi...''
           @ [WiFiBegin ssid password]
           @ concat (replicate 20 (attempt_effects (debug_mode s) ''Attempting to connect...''))
           @ debug_lines (debug_mode s) ''Failed to connect to Wi-Fi.''
           @ [SetPixelColor 0 (Color 255 0 0), Show, Delay 1000]"
    and "pixel (setup_wifi s) = Color 255 0 0" and "led (setup_wifi s) = Color 255 0 0"
    and "wifi_reads (setup_wifi s) = wifi_reads s + 22"
proof -
  have n: "failed_polls (wifi s) (wifi_reads s) max_attempts = 20"
    using failed_polls_none [OF assms, of 20] by (simp add: max_attempts_def)
  have last: "wifi s (Suc (wifi_reads s + 20)) \<noteq> WL_CONNECTED"
    using assms [rule_format, of 21] by (simp add: add.commute)
  show "emitted setup_wifi s =
           debug_lines (debug_mode s) ''Connecting to Wi-Fi...''
           @ [WiFiBegin ssid password]
           @ concat (replicate 20 (attempt_effects (debug_mode s) ''Attempting to connect...''))
           @ debug_lines (debug_mode s) ''Failed to connect to Wi-Fi.''
           @ [SetPixelColor 0 (Color 255 0 0), Show, Delay 1000]"
    using last by (simp add: emitted_def setup_wifi_trace n join_result_effects_def)
  show "pixel (setup_wifi s) = Color 255 0 0" "led (setup_wifi s) = Color 255 0 0"
    "wifi_reads (setup_wifi s) = wifi_reads s + 22"
    using last by (simp_all add: setup_wifi_fields n)
qed

lemma loop_wifi_failed:
  assumes "\<forall>j\<le>22. wifi s (wifi_reads s + j) \<noteq> WL_CONNECTED"
  shows "emitted loop_wifi s =
           debug_lines (debug_mode s) ''Wi-Fi disconnected. Attempting to reconnect...''
           @ [SetPixelColor 0 (Color 255 0 0), Show, WiFiBegin ssid password]
           @ concat (replicate 20 (attempt_effects (debug_mode s) ''Reconnecting...''))
           @ debug_lines (debug_mode s) ''Failed to reconnect to Wi-Fi.''
           @ [SetPixelColor 0 (Color 255 0 0), Show, Delay 10, Delay 5]"
    and "pixel (loop_wifi s) = Color 255 0 0" and "led (loop_wifi s) = Color 255 0 0"
    and "wifi_reads (loop_wifi s) = wifi_reads s + 23"
proof -
  have "\<forall>j\<le>21. wifi s (Suc (wifi_reads s) + j) \<noteq> WL_CONNECTED"
  proof (intro allI impI)
    fix j :: nat assume "j \<le> 21"
    then show "wifi s (Suc (wifi_reads s) + j) \<noteq> WL_CONNECTED"
      using assms [rule_format, of "Suc j"] by simp
  qed
  then have n: "failed_polls (wifi s) (Suc (wifi_reads s)) max_attempts = 20"
    using failed_polls_none [of 21 "wifi s" "Suc (wifi_reads s)" 20]
    by (simp add: max_attempts_def)
  have first: "wifi s (wifi_reads s) \<noteq> WL_CONNECTED"
    using assms [rule_format, of 0] by simp
  have last: "wifi s (Suc (Suc (wifi_reads s + 20))) \<noteq> WL_CONNECTED"
    using assms [rule_format, of 22] by (simp add: add.commute)
  show "emitted loop_wifi s =
           debug_lines (debug_mode s) ''Wi-Fi disconnected. Attempting to reconnect...''
           @ [SetPixelColor 0 (Color 255 0 0), Show, WiFiBegin ssid password]
           @ concat (replicate 20 (attempt_effects (debug_mode s) ''Reconnecting...''))
           @ debug_lines (debug_mode s) ''Failed to reconnect to Wi-Fi.''
           @ [SetPixelColor 0 (Color 255 0 0), Show, Delay 10, Delay 5]"
    using first last by (simp add: emitted_def loop_wifi_trace n rejoin_result_effects_def)
  show "pixel (loop_wifi s) = Color 255 0 0" "led (loop_wifi s) = Color 255 0 0"
    "wifi_reads (loop_wifi s) = wifi_reads s + 23"
    using first last by (simp_all add: loop_wifi_fields n)
qed

lemma setup_wifi_early:
  assumes "\<forall>j<k. wifi s (wifi_reads s + j) \<noteq> WL_CONNECTED"
    and "wifi s (wifi_reads s + k) = WL_CONNECTED" and "k \<le> 20"
  shows "count_list (emitted setup_wifi s) (Delay 500) = k"
    and "wifi_reads (setup_wifi s) = wifi_reads s + k + 2"
proof -
  have n: "failed_polls (wifi s) (wifi_reads s) max_attempts = k"
    using assms by (intro failed_polls_first) (simp_all add: max_attempts_def)
  show "count_list (emitted setup_wifi s) (Delay 500) = k"
    "wifi_reads (setup_wifi s) = wifi_reads s + k + 2"
    by (simp_all add: setup_attempts setup_wifi_fields n)
qed

lemma loop_wifi_early:
  assumes "\<forall>j\<le>k. wifi s (wifi_reads s + j) \<noteq> WL_CONNECTED"
    and "wifi s (wifi_reads s + Suc k) = WL_CONNECTED" and "k \<le> 20"
  shows "count_list (emitted loop_wifi s) (Delay 500) = k"
    and "wifi_reads (loop_wifi s) = wifi_reads s + k + 3"
proof -
  have n: "failed_polls (wifi s) (Suc (wifi_reads s)) max_attempts = k"
  proof (rule failed_polls_first)
    fix j assume "j < k"
    then show "wifi s (Suc (wifi_reads s) + j) \<noteq> WL_CONNECTED"
      using assms(1) [rule_format, of "Suc j"] by simp
  next
    show "wifi s (Suc (wifi_reads s) + k) = WL_CONNECTED" using assms(2) by simp
  next
    show "k \<le> max_attempts" using assms(3) by (simp add: max_attempts_def)
  qed
  have first: "wifi s (wifi_reads s) \<noteq> WL_CONNECTED"
    using assms(1) [rule_format, of 0] by simp
  show "count_list (emitted loop_wifi s) (Delay 500) = k"
    "wifi_reads (loop_wifi s) = wifi_reads s + k + 3"
    using first by (simp_all add: loop_attempts loop_wifi_fields n)
qed

lemma wifi_attempts_bounded:
  "count_list (emitted setup_wifi s) (Delay 500) \<le> 20"
  "count_list (emitted loop_wifi s) (Delay 500) \<le> 20"
  using failed_polls_le [of "wifi s" "wifi_reads s" max_attempts]
    failed_polls_le [of "wifi s" "Suc (wifi_reads s)" max_attempts]
  by (simp_all add: setup_attempts loop_attempts max_attempts_def)

lemma loop_wifi_connected:
  "wifi s (wifi_reads s) = WL_CONNECTED \<Longrightarrow> emitted loop_wifi s = [Delay 5]"
  by (simp add: emitted_def loop_wifi_trace)

lemma join_indication:
  "pixel (setup_wifi s) =
     (if wifi s (wifi_reads (setup_wifi s) - 1) = WL_CONNECTED
      then Color 0 255 0 else Color 255 0 0)"
  "led (setup_wifi s) = pixel (setup_wifi s)"
  by (simp_all add: setup_wifi_fields)

lemma setup_wifi_exhausted:
  assumes "\<forall>j\<le>20. wifi s (wifi_reads s + j) \<noteq> WL_CONNECTED"
  shows "count_list (emitted setup_wifi s) (Delay 500) = 20"
    and "wifi_reads (setup_wifi s) = wifi_reads s + 22"
    and "emitted setup_wifi s =
           debug_lines (debug_mode s) ''Connecting to Wi-Fi...''
           @ [WiFiBegin ssid password]
           @ concat (replicate 20 (attempt_effects (debug_mode s) ''Attempting to connect...''))
           @ join_result_effects (debug_mode s)
               (wifi s (wifi_reads s + 21) = WL_CONNECTED) (local_ip s)
           @ [Show, Delay 1000]"
    and "pixel (setup_wifi s) =
           (if wifi s (wifi_reads s + 21) = WL_CONNECTED then Color 0 255 0 else Color 255 0 0)"
    and "led (setup_wifi s) =
           (if wifi s (wifi_reads s + 21) = WL_CONNECTED then Color 0 255 0 else Color 255 0 0)"
proof -
  have n: "failed_polls (wifi s) (wifi_reads s) max_attempts = 20"
    using failed_polls_none [OF assms, of 20] by (simp add: max_attempts_def)
  have idx: "Suc (wifi_reads s + 20) = wifi_reads s + 21" by simp
  show "count_list (emitted setup_wifi s) (Delay 500) = 20"
    by (simp add: setup_attempts n)
  show "wifi_reads (setup_wifi s) = wifi_reads s + 22"
    by (simp add: setup_wifi_fields n)
  show "emitted setup_wifi s =
           debug_lines (debug_mode s) ''Connecting to Wi-Fi...''
           @ [WiFiBegin ssid password]
           @ concat (replicate 20 (attempt_effects (debug_mode s) ''Attempting to connect...''))
           @ join_result_effects (debug_mode s)
               (wifi s (wifi_reads s + 21) = WL_CONNECTED) (local_ip s)
           @ [Show, Delay 1000]"
    unfolding emitted_def setup_wifi_trace n idx by simp
  show "pixel (setup_wifi s) =
           (if wifi s (wifi_reads s + 21) = WL_CONNECTED then Color 0 255 0 else Color 255 0 0)"
    "led (setup_wifi s) =
           (if wifi s (wifi_reads s + 21) = WL_CONNECTED then Color 0 255 0 else Color 255 0 0)"
    unfolding setup_wifi_fields n idx by simp_all
qed

lemma loop_wifi_exhausted:
  assumes "\<forall>j\<le>21. wifi s (wifi_reads s + j) \<noteq> WL_CONNECTED"
  shows "count_list (emitted loop_wifi s) (Delay 500) = 20"
    and "wifi_reads (loop_wifi s) = wifi_reads s + 23"
    and "emitted loop_wifi s =
           debug_lines (debug_mode s) ''Wi-Fi disconnected. Attempting to reconnect...''
           @ [SetPixelColor 0 (Color 255 0 0), Show, WiFiBegin ssid password]
           @ concat (replicate 20 (attempt_effects (debug_mode s) ''Reconnecting...''))
           @ rejoin_result_effects (debug_mode s) (wifi s (wifi_reads s + 22) = WL_CONNECTED)
           @ [Show, Delay 10, Delay 5]"
    and "pixel (loop_wifi s) =
           (if wifi s (wifi_reads s + 22) = WL_CONNECTED then Color 0 255 0 else Color 255 0 0)"
    and "led (loop_wifi s) =
           (if wifi s (wifi_reads s + 22) = WL_CONNECTED then Color 0 255 0 else Color 255 0 0)"
proof -
  have "\<forall>j\<le>20. wifi s (Suc (wifi_reads s) + j) \<noteq> WL_CONNECTED"
  proof (intro allI impI)
    fix j :: nat assume "j \<le> 20"
    then show "wifi s (Suc (wifi_reads s) + j) \<noteq> WL_CONNECTED"
      using assms [rule_format, of "Suc j"] by simp
  qed
  then have n: "failed_polls (wifi s) (Suc (wifi_reads s)) max_attempts = 20"
    using failed_polls_none [of 20 "wifi s" "Suc (wifi_reads s)" 20]
    by (simp add: max_attempts_def)
  have first: "(wifi s (wifi_reads s) = WL_CONNECTED) = False"
    using assms [rule_format, of 0] by simp
  have idx: "Suc (Suc (wifi_reads s) + 20) = wifi_reads s + 22" by simp
  show "count_list (emitted loop_wifi s) (Delay 500) = 20"
    by (simp add: loop_attempts n first)
  show "wifi_reads (loop_wifi s) = wifi_reads s + 23"
    by (simp add: loop_wifi_fields n first)
  show "emitted loop_wifi s =
           debug_lines (debug_mode s) ''Wi-Fi disconnected. Attempting to reconnect...''
           @ [SetPixelColor 0 (Color 255 0 0), Show, WiFiBegin ssid password]
           @ concat (replicate 20 (attempt_effects (debug_mode s) ''Reconnecting...''))
           @ rejoin_result_effects (debug_mode s) (wifi s (wifi_reads s + 22) = WL_CONNECTED)
           @ [Show, Delay 10, Delay 5]"
    unfolding emitted_def loop_wifi_trace n idx first by simp
  show "pixel (loop_wifi s) =
           (if wifi s (wifi_reads s + 22) = WL_CONNECTED then Color 0 255 0 else Color 255 0 0)"
    unfolding loop_wifi_fields n idx first by simp
  then show "led (loop_wifi s) =
           (if wifi s (wifi_reads s + 22) = WL_CONNECTED then Color 0 255 0 else Color 255 0 0)"
    unfolding loop_wifi_fields(2) first by simp
qed

lemma rejoin_indication:
  "wifi s (wifi_reads s) \<noteq> WL_CONNECTED \<Longrightarrow>
   pixel (loop_wifi s) =
     (if wifi s (wifi_reads (loop_wifi s) - 1) = WL_CONNECTED
      then Color 0 255 0 else Color 255 0 0)
   \<and> led (loop_wifi s) = pixel (loop_wifi s)"
  by (simp add: loop_wifi_fields)

section \<open>The rotation sequences\<close>

text \<open>
  C1. Command '5' switches on motors 1, 2, 4, 3 in this order and command '6' motors
  1, 3, 4, 2. Each sequence blocks eight times: four times for 200 ms with exactly the
  one motor of the step on, each followed by 80 ms with no motor on. There are exactly
  four activations. This holds from every device state.
\<close>

theorem C1_rotation_sequences:
  "loop_switch (CHR ''5'') s = clockwisePulse s
   \<and> loop_switch (CHR ''6'') s = counterClockwisePulse s
   \<and> activations (emitted (loop_switch (CHR ''5'')) s) =
       [MOTOR1_PIN, MOTOR2_PIN, MOTOR4_PIN, MOTOR3_PIN]
   \<and> activations (emitted (loop_switch (CHR ''6'')) s) =
       [MOTOR1_PIN, MOTOR3_PIN, MOTOR4_PIN, MOTOR2_PIN]
   \<and> map (\<lambda>(motors, shown, ms). (motors, ms))
         (phases (outputs_of s) (emitted (loop_switch (CHR ''5'')) s)) =
       [([MOTOR1_PIN], 200), ([], 80), ([MOTOR2_PIN], 200), ([], 80),
        ([MOTOR4_PIN], 200), ([], 80), ([MOTOR3_PIN], 200), ([], 80)]
   \<and> map (\<lambda>(motors, shown, ms). (motors, ms))
         (phases (outputs_of s) (emitted (loop_switch (CHR ''6'')) s)) =
       [([MOTOR1_PIN], 200), ([], 80), ([MOTOR3_PIN], 200), ([], 80),
        ([MOTOR4_PIN], 200), ([], 80), ([MOTOR2_PIN], 200), ([], 80)]"
  by (simp add: emitted_loop_switch activations_commands phases_clockwise
      phases_counterclockwise)
    (simp add: loop_switch_def)

section \<open>Every command leaves the motors idle\<close>

text \<open>
  C2. Whatever byte the switch receives (the seven commands and the default branch), and
  whatever the device state was, all four motor pins are LOW when the switch returns.
\<close>

theorem C2_all_idle_after_command:
  "motors_idle (loop_switch c s)
   \<and> pins (loop_switch c s) MOTOR1_PIN = LOW
   \<and> pins (loop_switch c s) MOTOR2_PIN = LOW
   \<and> pins (loop_switch c s) MOTOR3_PIN = LOW
   \<and> pins (loop_switch c s) MOTOR4_PIN = LOW"
  by (simp add: loop_switch_pins motors_idle_outputs)

section \<open>The command mapping\<close>

text \<open>
  C3. The switch is a total function of the byte. '1' runs the up pulse, which switches
  on motor 1 alone, '2' the right pulse (motor 2), '3' the left pulse (motor 3), '4' the
  down pulse (motor 4), and '7' switches on all four motors at once. The effects a byte
  produces are a function of the byte and of the debug flag (which only adds serial
  lines); what the motors and the LED do during the delays does not depend on the state
  at all.
\<close>

theorem C3_command_mapping:
  "loop_switch (CHR ''1'') s = upPulse s
   \<and> loop_switch (CHR ''2'') s = rightPulse s
   \<and> loop_switch (CHR ''3'') s = leftPulse s
   \<and> loop_switch (CHR ''4'') s = downPulse s
   \<and> loop_switch (CHR ''7'') s = allMotorsPulse s
   \<and> map (\<lambda>(motors, shown, ms). (motors, ms))
         (phases (outputs_of s) (emitted (loop_switch (CHR ''1'')) s)) =
       [([MOTOR1_PIN], 200), ([], 80)]
   \<and> map (\<lambda>(motors, shown, ms). (motors, ms))
         (phases (outputs_of s) (emitted (loop_switch (CHR ''2'')) s)) =
       [([MOTOR2_PIN], 200), ([], 80)]
   \<and> map (\<lambda>(motors, shown, ms). (motors, ms))
         (phases (outputs_of s) (emitted (loop_switch (CHR ''3'')) s)) =
       [([MOTOR3_PIN], 200), ([], 80)]
   \<and> map (\<lambda>(motors, shown, ms). (motors, ms))
         (phases (outputs_of s) (emitted (loop_switch (CHR ''4'')) s)) =
       [([MOTOR4_PIN], 200), ([], 80)]
   \<and> map (\<lambda>(motors, shown, ms). (motors, ms))
         (phases (outputs_of s) (emitted (loop_switch (CHR ''7'')) s)) =
       [([MOTOR1_PIN, MOTOR2_PIN, MOTOR3_PIN, MOTOR4_PIN], 200), ([], 80)]
   \<and> activations (emitted (loop_switch (CHR ''1'')) s) = [MOTOR1_PIN]
   \<and> activations (emitted (loop_switch (CHR ''2'')) s) = [MOTOR2_PIN]
   \<and> activations (emitted (loop_switch (CHR ''3'')) s) = [MOTOR3_PIN]
   \<and> activations (emitted (loop_switch (CHR ''4'')) s) = [MOTOR4_PIN]
   \<and> activations (emitted (loop_switch (CHR ''7'')) s) =
       [MOTOR1_PIN, MOTOR2_PIN, MOTOR3_PIN, MOTOR4_PIN]
   \<and> emitted (loop_switch c) s = command_effects (debug_mode s) c
   \<and> phases (outputs_of s) (emitted (loop_switch c) s) =
       phases (outputs_of s') (emitted (loop_switch c) s')"
proof -
  have "phases (outputs_of s) (emitted (loop_switch c) s) =
       phases (outputs_of s') (emitted (loop_switch c) s')"
    unfolding emitted_loop_switch by (rule phases_state_free)
  moreover have "loop_switch (CHR ''1'') s = upPulse s" "loop_switch (CHR ''2'') s = rightPulse s"
    "loop_switch (CHR ''3'') s = leftPulse s" "loop_switch (CHR ''4'') s = downPulse s"
    "loop_switch (CHR ''7'') s = allMotorsPulse s"
    by (simp_all add: loop_switch_def)
  ultimately show ?thesis
    by (simp add: emitted_loop_switch activations_commands phases_single)
qed

section \<open>Bytes that are no command\<close>

text \<open>
  C4. A byte other than '1' to '7' takes the default branch: the line
  "Invalid command received. Stopping all motors." goes to \<open>DebugLog\<close>, which prints it
  only if the debug flag is set, and \<open>stopAllMotors\<close> runs. The effects are the four LOW
  writes and the white indicator, no pin is written HIGH, the program does not block,
  the table has no step for the byte, and the motors are idle afterwards. The switch
  returns a state for every such byte: nothing fails.
\<close>

theorem C4_invalid_command_idles:
  assumes "c \<notin> set ''1234567''"
  shows "loop_switch c s =
           stopAllMotors (DebugLog ''Invalid command received. Stopping all motors.'' s)
   \<and> emitted (loop_switch c) s =
       (if debug_mode s
        then [SerialPrintln ''Invalid command received. Stopping all motors.''] else [])
       @ [DigitalWrite MOTOR1_PIN LOW, DigitalWrite MOTOR2_PIN LOW,
          DigitalWrite MOTOR3_PIN LOW, DigitalWrite MOTOR4_PIN LOW,
          SetPixelColor 0 (Color 255 255 255), Show]
       @ (if debug_mode s then [SerialPrintln ''All motors stopped.''] else [])
   \<and> activations (emitted (loop_switch c) s) = []
   \<and> phases (outputs_of s) (emitted (loop_switch c) s) = []
   \<and> motion_table c = []
   \<and> motors_idle (loop_switch c s)"
proof -
  have "loop_switch c s =
           stopAllMotors (DebugLog ''Invalid command received. Stopping all motors.'' s)"
    using assms by (simp add: loop_switch_def block_def)
  moreover have "emitted (loop_switch c) s =
       (if debug_mode s
        then [SerialPrintln ''Invalid command received. Stopping all motors.''] else [])
       @ [DigitalWrite MOTOR1_PIN LOW, DigitalWrite MOTOR2_PIN LOW,
          DigitalWrite MOTOR3_PIN LOW, DigitalWrite MOTOR4_PIN LOW,
          SetPixelColor 0 (Color 255 255 255), Show]
       @ (if debug_mode s then [SerialPrintln ''All motors stopped.''] else [])"
    using assms unfolding emitted_loop_switch by (simp add: table_defs)
  moreover have "motion_table c = []"
    using assms by (simp add: motion_table_def)
  moreover have "motors_idle (loop_switch c s)"
    by (simp add: loop_switch_pins motors_idle_outputs)
  ultimately show ?thesis
    using assms by (simp add: emitted_loop_switch activations_invalid phases_invalid)
qed

theorem C4_invalid_command_idles_witness:
  "CHR ''9'' \<notin> set ''1234567''
   \<and> emitted (loop_switch (CHR ''9'')) bench =
       [DigitalWrite MOTOR1_PIN LOW, DigitalWrite MOTOR2_PIN LOW,
        DigitalWrite MOTOR3_PIN LOW, DigitalWrite MOTOR4_PIN LOW,
        SetPixelColor 0 (Color 255 255 255), Show]
   \<and> emitted (loop_switch (CHR ''9'')) bench_debug =
       [SerialPrintln ''Invalid command received. Stopping all motors.'',
        DigitalWrite MOTOR1_PIN LOW, DigitalWrite MOTOR2_PIN LOW,
        DigitalWrite MOTOR3_PIN LOW, DigitalWrite MOTOR4_PIN LOW,
        SetPixelColor 0 (Color 255 255 255), Show,
        SerialPrintln ''All motors stopped.'']
   \<and> motors_idle (loop_switch (CHR ''9'') bench)"
proof -
  have h: "CHR ''9'' \<notin> set ''1234567''" by simp
  have d: "debug_mode bench = False" "debug_mode bench_debug = True"
    by (simp_all add: bench_def bench_debug_def)
  show ?thesis
    using h C4_invalid_command_idles [OF h, of bench, THEN conjunct2]
      C4_invalid_command_idles [OF h, of bench_debug, THEN conjunct2]
    by (simp add: d)
qed

section \<open>The effect sequence of a command\<close>

text \<open>
  C5. The effects of the switch on any byte are those of the specification's executor on
  the byte's entry in the motion table: for each step, in the order of the table and
  one step after the other, (1) the four pin writes, HIGH for the motors the step names
  and LOW for the others, (2) the step's colour staged and shown, (3) the delay of the
  on-duration, (4) the four LOW writes and the white idle colour staged and shown,
  (5) the delay of the off-duration. The idle-all entry has no step: the switch then
  does the de-energize action (4) once, without blocking. The only other effects are
  the serial lines that \<open>DebugLog\<close> prints when the debug flag is set: one before the
  first step, and "All motors stopped." at the end of every action (4).
\<close>

theorem C5_effects_follow_table:
  "trace (loop_switch c s) =
     trace s
     @ debug_lines (debug_mode s) (start_message c)
     @ (if motion_table c = [] then idle_effects (debug_mode s)
        else concat (map (step_effects (debug_mode s)) (motion_table c)))
   \<and> step_effects b st =
       [DigitalWrite MOTOR1_PIN (if MOTOR1_PIN \<in> set (actuators st) then HIGH else LOW),
        DigitalWrite MOTOR2_PIN (if MOTOR2_PIN \<in> set (actuators st) then HIGH else LOW),
        DigitalWrite MOTOR3_PIN (if MOTOR3_PIN \<in> set (actuators st) then HIGH else LOW),
        DigitalWrite MOTOR4_PIN (if MOTOR4_PIN \<in> set (actuators st) then HIGH else LOW),
        SetPixelColor 0 (step_color st), Show,
        Delay (on_ms st),
        DigitalWrite MOTOR1_PIN LOW, DigitalWrite MOTOR2_PIN LOW,
        DigitalWrite MOTOR3_PIN LOW, DigitalWrite MOTOR4_PIN LOW,
        SetPixelColor 0 (Color 255 255 255), Show]
       @ (if b then [SerialPrintln ''All motors stopped.''] else [])
       @ [Delay (off_ms st)]"
  by (simp add: trace_loop_switch command_effects_def)
    (simp add: step_effects_def motor_pins_def idle_effects_def debug_lines_def)

section \<open>Stopping twice\<close>

text \<open>
  C6. \<open>stopAllMotors\<close>, and the default branch of the switch that runs it, leave all motors
  idle, and running either a second time leaves the outputs (pin levels, staged and
  shown colour) exactly as the first run left them.
\<close>

theorem C6_idle_all_idempotent:
  "motors_idle (stopAllMotors s)
   \<and> motors_idle (stopAllMotors (stopAllMotors s))
   \<and> outputs_of (stopAllMotors (stopAllMotors s)) = outputs_of (stopAllMotors s)
   \<and> (c \<notin> set ''1234567'' \<and> c' \<notin> set ''1234567'' \<longrightarrow>
        motors_idle (loop_switch c s)
        \<and> motors_idle (loop_switch c' (loop_switch c s))
        \<and> outputs_of (loop_switch c' (loop_switch c s)) = outputs_of (loop_switch c s))"
  by (simp add: stopAllMotors_outputs loop_switch_outputs motors_idle_outputs
      stopAllMotors_fields loop_switch_pins)

theorem C6_idle_all_idempotent_witness:
  "CHR ''9'' \<notin> set ''1234567'' \<and> CHR ''x'' \<notin> set ''1234567''
   \<and> motors_idle (loop_switch (CHR ''9'') bench)
   \<and> motors_idle (loop_switch (CHR ''x'') (loop_switch (CHR ''9'') bench))
   \<and> outputs_of (loop_switch (CHR ''x'') (loop_switch (CHR ''9'') bench)) =
       outputs_of (loop_switch (CHR ''9'') bench)"
  using C6_idle_all_idempotent [of bench "CHR ''9''" "CHR ''x''"] by simp

section \<open>The bounded network join\<close>

text \<open>
  C7, as stated, fails in its last part. The polling loop gives up after 20 attempts, but
  the code does not show red for that reason: it reads the status once more after the
  loop and shows what that reading says. When the first 21 readings of \<^verbatim>\<open>setup()\<close>
  (all those of the loop, the one that ends it at 20 attempts included) are not
  \<open>WL_CONNECTED\<close> and the 22nd is, the join has used up its 20 attempts and ends green,
  with the server started. The rejoin of \<^verbatim>\<open>loop()\<close> does the same one reading later.
\<close>

theorem C7_exhaustion_counterexample:
  "map (wifi bench_late_join) [0..<22] = replicate 21 WL_DISCONNECTED @ [WL_CONNECTED]
   \<and> wifi_reads bench_late_join = 0
   \<and> count_list (emitted setup_wifi bench_late_join) (Delay 500) = 20
   \<and> emitted setup_wifi bench_late_join =
       [WiFiBegin ''Xiaomi_7842'' ''12345678'']
       @ concat (replicate 20 [SetPixelColor 0 (Color 255 255 0), Show, Delay 500])
       @ [SetPixelColor 0 (Color 0 255 0), ServerBegin, Show, Delay 1000]
   \<and> pixel (setup_wifi bench_late_join) = Color 0 255 0
   \<and> led (setup_wifi bench_late_join) = Color 0 255 0
   \<and> led (setup_wifi bench_late_join) \<noteq> Color 255 0 0
   \<and> map (wifi bench_late_rejoin) [0..<23] = replicate 22 WL_DISCONNECTED @ [WL_CONNECTED]
   \<and> wifi_reads bench_late_rejoin = 0
   \<and> count_list (emitted loop_wifi bench_late_rejoin) (Delay 500) = 20
   \<and> emitted loop_wifi bench_late_rejoin =
       [SetPixelColor 0 (Color 255 0 0), Show, WiFiBegin ''Xiaomi_7842'' ''12345678'']
       @ concat (replicate 20 [SetPixelColor 0 (Color 255 255 0), Show, Delay 500])
       @ [SetPixelColor 0 (Color 0 255 0), Show, Delay 10, Delay 5]
   \<and> led (loop_wifi bench_late_rejoin) = Color 0 255 0
   \<and> led (loop_wifi bench_late_rejoin) \<noteq> Color 255 0 0"
proof -
  have readings:
    "map (wifi bench_late_join) [0..<22] = replicate 21 WL_DISCONNECTED @ [WL_CONNECTED]"
    "map (wifi bench_late_rejoin) [0..<23] = replicate 22 WL_DISCONNECTED @ [WL_CONNECTED]"
    by (simp_all add: bench_late_join_def bench_late_rejoin_def bench_def upt_rec
        eval_nat_numeral)
  have fields:
    "wifi_reads bench_late_join = 0" "wifi_reads bench_late_rejoin = 0"
    "debug_mode bench_late_join = False" "debug_mode bench_late_rejoin = False"
    "wifi bench_late_join 21 = WL_CONNECTED" "wifi bench_late_rejoin 22 = WL_CONNECTED"
    by (simp_all add: bench_late_join_def bench_late_rejoin_def bench_def)
  have a: "\<forall>j\<le>20. wifi bench_late_join (wifi_reads bench_late_join + j) \<noteq> WL_CONNECTED"
    by (simp add: bench_late_join_def bench_def)
  have b: "\<forall>j\<le>21. wifi bench_late_rejoin (wifi_reads bench_late_rejoin + j) \<noteq> WL_CONNECTED"
    by (simp add: bench_late_rejoin_def bench_def)
  show ?thesis
    using readings setup_wifi_exhausted [OF a] loop_wifi_exhausted [OF b]
    by (simp add: fields attempt_effects_def join_result_effects_def
        rejoin_result_effects_def debug_lines_def ssid_def password_def)
qed

text \<open>
  C7, amended. The join of \<^verbatim>\<open>setup()\<close> and the rejoin of \<^verbatim>\<open>loop()\<close> call
  \<^verbatim>\<open>WiFi.begin\<close> once and then poll the status, with a 500 ms delay after each
  reading that is not \<open>WL_CONNECTED\<close>, at most 20 times whatever the network does.
  If the reading after \<open>k\<close> failed ones (\<open>k \<le> 20\<close>) is \<open>WL_CONNECTED\<close>, the loop makes
  exactly \<open>k\<close> attempts and stops. When the loop gives up (all its 21 readings failed:
  20 attempts), the code takes one more status reading and that reading decides the
  indication: red when it is not \<open>WL_CONNECTED\<close>, green (and, in \<^verbatim>\<open>setup()\<close>, the
  server started) when it is. So the indication is red whenever no status reading
  reports a connection. In either case the code then shows the colour and returns: the
  effects end there, with no second \<^verbatim>\<open>WiFi.begin\<close>. The rejoin runs only in a pass
  of \<^verbatim>\<open>loop()\<close> whose first status reading is not \<open>WL_CONNECTED\<close>; otherwise the
  pass only delays 5 ms.
\<close>

theorem C7_wifi_join_bounded:
  "max_attempts = 20
   \<and> count_list (emitted setup_wifi s) (Delay 500) \<le> 20
   \<and> count_list (emitted loop_wifi s) (Delay 500) \<le> 20
   \<and> count_list (emitted setup_wifi s) (WiFiBegin ssid password) = 1
   \<and> count_list (emitted loop_wifi s) (WiFiBegin ssid password) \<le> 1
   \<and> ((\<forall>j<k. wifi s (wifi_reads s + j) \<noteq> WL_CONNECTED)
        \<and> wifi s (wifi_reads s + k) = WL_CONNECTED \<and> k \<le> 20 \<longrightarrow>
      count_list (emitted setup_wifi s) (Delay 500) = k
      \<and> wifi_reads (setup_wifi s) = wifi_reads s + k + 2)
   \<and> ((\<forall>j\<le>k. wifi s (wifi_reads s + j) \<noteq> WL_CONNECTED)
        \<and> wifi s (wifi_reads s + Suc k) = WL_CONNECTED \<and> k \<le> 20 \<longrightarrow>
      count_list (emitted loop_wifi s) (Delay 500) = k
      \<and> wifi_reads (loop_wifi s) = wifi_reads s + k + 3)
   \<and> (wifi s (wifi_reads s) = WL_CONNECTED \<longrightarrow> emitted loop_wifi s = [Delay 5])
   \<and> ((\<forall>j\<le>20. wifi s (wifi_reads s + j) \<noteq> WL_CONNECTED) \<longrightarrow>
      count_list (emitted setup_wifi s) (Delay 500) = 20
      \<and> wifi_reads (setup_wifi s) = wifi_reads s + 22
      \<and> emitted setup_wifi s =
        debug_lines (debug_mode s) ''Connecting to Wi-Fi...''
        @ [WiFiBegin ssid password]
        @ concat (replicate 20
            ([SetPixelColor 0 (Color 255 255 0), Show]
             @ debug_lines (debug_mode s) ''Attempting to connect...''
             @ [Delay 500]))
        @ (if wifi s (wifi_reads s + 21) = WL_CONNECTED
           then debug_lines (debug_mode s) ''Connected to Wi-Fi!''
                @ debug_lines (debug_mode s) (local_ip s)
                @ [SetPixelColor 0 (Color 0 255 0), ServerBegin]
                @ debug_lines (debug_mode s) ''Server started.''
           else debug_lines (debug_mode s) ''Failed to connect to Wi-Fi.''
                @ [SetPixelColor 0 (Color 255 0 0)])
        @ [Show, Delay 1000]
      \<and> pixel (setup_wifi s) =
          (if wifi s (wifi_reads s + 21) = WL_CONNECTED
           then Color 0 255 0 else Color 255 0 0)
      \<and> led (setup_wifi s) =
          (if wifi s (wifi_reads s + 21) = WL_CONNECTED
           then Color 0 255 0 else Color 255 0 0))
   \<and> ((\<forall>j\<le>21. wifi s (wifi_reads s + j) \<noteq> WL_CONNECTED) \<longrightarrow>
      count_list (emitted loop_wifi s) (Delay 500) = 20
      \<and> wifi_reads (loop_wifi s) = wifi_reads s + 23
      \<and> emitted loop_wifi s =
        debug_lines (debug_mode s) ''Wi-Fi disconnected. Attempting to reconnect...''
        @ [SetPixelColor 0 (Color 255 0 0), Show, WiFiBegin ssid password]
        @ concat (replicate 20
            ([SetPixelColor 0 (Color 255 255 0), Show]
             @ debug_lines (debug_mode s) ''Reconnecting...''
             @ [Delay 500]))
        @ (if wifi s (wifi_reads s + 22) = WL_CONNECTED
           then debug_lines (debug_mode s) ''Reconnected to Wi-Fi!''
                @ [SetPixelColor 0 (Color 0 255 0)]
           else debug_lines (debug_mode s) ''Failed to reconnect to Wi-Fi.''
                @ [SetPixelColor 0 (Color 255 0 0)])
        @ [Show, Delay 10, Delay 5]
      \<and> pixel (loop_wifi s) =
          (if wifi s (wifi_reads s + 22) = WL_CONNECTED
           then Color 0 255 0 else Color 255 0 0)
      \<and> led (loop_wifi s) =
          (if wifi s (wifi_reads s + 22) = WL_CONNECTED
           then Color 0 255 0 else Color 255 0 0))
   \<and> ((\<forall>j\<le>21. wifi s (wifi_reads s + j) \<noteq> WL_CONNECTED) \<longrightarrow>
      emitted setup_wifi s =
        debug_lines (debug_mode s) ''Connecting to Wi-Fi...''
        @ [WiFiBegin ssid password]
        @ concat (replicate 20
            ([SetPixelColor 0 (Color 255 255 0), Show]
             @ debug_lines (debug_mode s) ''Attempting to connect...''
             @ [Delay 500]))
        @ debug_lines (debug_mode s) ''Failed to connect to Wi-Fi.''
        @ [SetPixelColor 0 (Color 255 0 0), Show, Delay 1000]
      \<and> pixel (setup_wifi s) = Color 255 0 0
      \<and> led (setup_wifi s) = Color 255 0 0
      \<and> wifi_reads (setup_wifi s) = wifi_reads s + 22)
   \<and> ((\<forall>j\<le>22. wifi s (wifi_reads s + j) \<noteq> WL_CONNECTED) \<longrightarrow>
      emitted loop_wifi s =
        debug_lines (debug_mode s) ''Wi-Fi disconnected. Attempting to reconnect...''
        @ [SetPixelColor 0 (Color 255 0 0), Show, WiFiBegin ssid password]
        @ concat (replicate 20
            ([SetPixelColor 0 (Color 255 255 0), Show]
             @ debug_lines (debug_mode s) ''Reconnecting...''
             @ [Delay 500]))
        @ debug_lines (debug_mode s) ''Failed to reconnect to Wi-Fi.''
        @ [SetPixelColor 0 (Color 255 0 0), Show, Delay 10, Delay 5]
      \<and> pixel (loop_wifi s) = Color 255 0 0
      \<and> led (loop_wifi s) = Color 255 0 0
      \<and> wifi_reads (loop_wifi s) = wifi_reads s + 23)
   \<and> pixel (setup_wifi s) =
       (if wifi s (wifi_reads (setup_wifi s) - 1) = WL_CONNECTED
        then Color 0 255 0 else Color 255 0 0)
   \<and> led (setup_wifi s) = pixel (setup_wifi s)
   \<and> (wifi s (wifi_reads s) \<noteq> WL_CONNECTED \<longrightarrow>
      pixel (loop_wifi s) =
        (if wifi s (wifi_reads (loop_wifi s) - 1) = WL_CONNECTED
         then Color 0 255 0 else Color 255 0 0)
      \<and> led (loop_wifi s) = pixel (loop_wifi s))"
proof -
  note bounds = wifi_attempts_bounded [of s] setup_attempts(2) [of s] loop_attempts(2) [of s]
  note early = setup_wifi_early [of k s] loop_wifi_early [of k s] loop_wifi_connected [of s]
  note failed = setup_wifi_failed [of s] loop_wifi_failed [of s]
  note exhausted = setup_wifi_exhausted [of s, unfolded attempt_effects_def join_result_effects_def]
    loop_wifi_exhausted [of s, unfolded attempt_effects_def rejoin_result_effects_def]
  note final = join_indication [of s] rejoin_indication [of s]
  show ?thesis
    using bounds early failed exhausted final
    unfolding attempt_effects_def
    by (simp add: max_attempts_def)
qed

theorem C7_wifi_join_bounded_witness:
  "count_list (emitted setup_wifi bench_slow_network) (Delay 500) = 3
   \<and> count_list (emitted loop_wifi bench_slow_network) (Delay 500) = 2
   \<and> emitted loop_wifi (bench_slow_network\<lparr>wifi_reads := 3\<rparr>) = [Delay 5]
   \<and> emitted setup_wifi bench =
       [WiFiBegin ''Xiaomi_7842'' ''12345678'']
       @ concat (replicate 20 [SetPixelColor 0 (Color 255 255 0), Show, Delay 500])
       @ [SetPixelColor 0 (Color 255 0 0), Show, Delay 1000]
   \<and> led (setup_wifi bench) = Color 255 0 0
   \<and> emitted loop_wifi bench =
       [SetPixelColor 0 (Color 255 0 0), Show, WiFiBegin ''Xiaomi_7842'' ''12345678'']
       @ concat (replicate 20 [SetPixelColor 0 (Color 255 255 0), Show, Delay 500])
       @ [SetPixelColor 0 (Color 255 0 0), Show, Delay 10, Delay 5]
   \<and> led (loop_wifi bench) = Color 255 0 0
   \<and> led (loop_wifi bench) = pixel (loop_wifi bench)
   \<and> count_list (emitted setup_wifi bench_late_join) (Delay 500) = 20
   \<and> led (setup_wifi bench_late_join) = Color 0 255 0
   \<and> count_list (emitted loop_wifi bench_late_rejoin) (Delay 500) = 20
   \<and> led (loop_wifi bench_late_rejoin) = Color 0 255 0"
proof -
  have early_setup:
    "(\<forall>j<3. wifi bench_slow_network (wifi_reads bench_slow_network + j) \<noteq> WL_CONNECTED)
     \<and> wifi bench_slow_network (wifi_reads bench_slow_network + 3) = WL_CONNECTED
     \<and> (3::nat) \<le> 20"
    by (simp add: bench_slow_network_def bench_def)
  have early_loop:
    "(\<forall>j\<le>2. wifi bench_slow_network (wifi_reads bench_slow_network + j) \<noteq> WL_CONNECTED)
     \<and> wifi bench_slow_network (wifi_reads bench_slow_network + Suc 2) = WL_CONNECTED
     \<and> (2::nat) \<le> 20"
    by (simp add: bench_slow_network_def bench_def)
  have online:
    "wifi (bench_slow_network\<lparr>wifi_reads := 3\<rparr>)
       (wifi_reads (bench_slow_network\<lparr>wifi_reads := 3\<rparr>)) = WL_CONNECTED"
    by (simp add: bench_slow_network_def bench_def)
  have never:
    "\<forall>j\<le>21. wifi bench (wifi_reads bench + j) \<noteq> WL_CONNECTED"
    "\<forall>j\<le>22. wifi bench (wifi_reads bench + j) \<noteq> WL_CONNECTED"
    by (simp_all add: bench_def)
  have quiet: "debug_lines (debug_mode bench) m = []" for m
    by (simp add: bench_def debug_lines_def)
  from C7_wifi_join_bounded [of bench_slow_network 3] early_setup
  have a: "count_list (emitted setup_wifi bench_slow_network) (Delay 500) = 3"
    by blast
  from C7_wifi_join_bounded [of bench_slow_network 2] early_loop
  have b: "count_list (emitted loop_wifi bench_slow_network) (Delay 500) = 2"
    by blast
  from C7_wifi_join_bounded [of "bench_slow_network\<lparr>wifi_reads := 3\<rparr>" 0] online
  have c: "emitted loop_wifi (bench_slow_network\<lparr>wifi_reads := 3\<rparr>) = [Delay 5]"
    by blast
  from C7_wifi_join_bounded [of bench 0] never
  have d: "emitted setup_wifi bench =
        debug_lines (debug_mode bench) ''Connecting to Wi-Fi...''
        @ [WiFiBegin ssid password]
        @ concat (replicate 20
            ([SetPixelColor 0 (Color 255 255 0), Show]
             @ debug_lines (debug_mode bench) ''Attempting to connect...''
             @ [Delay 500]))
        @ debug_lines (debug_mode bench) ''Failed to connect to Wi-Fi.''
        @ [SetPixelColor 0 (Color 255 0 0), Show, Delay 1000]"
    "led (setup_wifi bench) = Color 255 0 0"
    "emitted loop_wifi bench =
        debug_lines (debug_mode bench) ''Wi-Fi disconnected. Attempting to reconnect...''
        @ [SetPixelColor 0 (Color 255 0 0), Show, WiFiBegin ssid password]
        @ concat (replicate 20
            ([SetPixelColor 0 (Color 255 255 0), Show]
             @ debug_lines (debug_mode bench) ''Reconnecting...''
             @ [Delay 500]))
        @ debug_lines (debug_mode bench) ''Failed to reconnect to Wi-Fi.''
        @ [SetPixelColor 0 (Color 255 0 0), Show, Delay 10, Delay 5]"
    "led (loop_wifi bench) = Color 255 0 0"
    by blast+
  have offline: "wifi bench (wifi_reads bench) \<noteq> WL_CONNECTED"
    by (simp add: bench_def)
  from C7_wifi_join_bounded [of bench 0] offline
  have e: "led (loop_wifi bench) = pixel (loop_wifi bench)"
    by blast
  have late_join:
    "\<forall>j\<le>20. wifi bench_late_join (wifi_reads bench_late_join + j) \<noteq> WL_CONNECTED"
    "wifi bench_late_join (wifi_reads bench_late_join + 21) = WL_CONNECTED"
    by (simp_all add: bench_late_join_def bench_def)
  have late_rejoin:
    "\<forall>j\<le>21. wifi bench_late_rejoin (wifi_reads bench_late_rejoin + j) \<noteq> WL_CONNECTED"
    "wifi bench_late_rejoin (wifi_reads bench_late_rejoin + 22) = WL_CONNECTED"
    by (simp_all add: bench_late_rejoin_def bench_def)
  from C7_wifi_join_bounded [of bench_late_join 0] late_join(1)
  have f: "count_list (emitted setup_wifi bench_late_join) (Delay 500) = 20"
    "led (setup_wifi bench_late_join) =
       (if wifi bench_late_join (wifi_reads bench_late_join + 21) = WL_CONNECTED
        then Color 0 255 0 else Color 255 0 0)"
    by blast+
  from C7_wifi_join_bounded [of bench_late_rejoin 0] late_rejoin(1)
  have g: "count_list (emitted loop_wifi bench_late_rejoin) (Delay 500) = 20"
    "led (loop_wifi bench_late_rejoin) =
       (if wifi bench_late_rejoin (wifi_reads bench_late_rejoin + 22) = WL_CONNECTED
        then Color 0 255 0 else Color 255 0 0)"
    by blast+
  show ?thesis
    using a b c d e f g
    by (simp add: quiet ssid_def password_def late_join(2) late_rejoin(2))
qed

section \<open>The bytes of the LED-control sketch\<close>

text \<open>
  C8, as stated, fails: the sketch passes the warning to \<open>DebugLog\<close>, which prints only
  when \<^verbatim>\<open>debug_mode\<close> is set, and the sketch initialises the flag to
  \<^verbatim>\<open>false\<close>. With the flag off, the byte 'X' produces no serial line at all.
\<close>

theorem C8_warning_counterexample:
  "CHR ''X'' \<notin> set ''RGB''
   \<and> \<not> debug_mode bench
   \<and> emitted (led_loop_byte (CHR ''X'')) bench = [Show, Delay 10, ClientFlush]
   \<and> SerialPrintln ''Invalid command.'' \<notin> set (emitted (led_loop_byte (CHR ''X'')) bench)"
  by (simp add: emitted_def led_loop_byte_def block_def prim_fields client_flush_fields
      debug_lines_def bench_def)

text \<open>
  C8, amended. The byte 'R' stages and shows red, 'G' green, 'B' blue; any other byte
  leaves the staged colour as it was (and shows it again). The colour after the byte
  depends on the byte and on the colour staged before, on nothing else. The warning
  "Invalid command." is passed to \<open>DebugLog\<close>: it is printed when the debug flag is set,
  and not otherwise.
\<close>

theorem C8_led_byte_colors:
  "pixel (led_loop_byte c s) =
     (if c = CHR ''R'' then Color 255 0 0
      else if c = CHR ''G'' then Color 0 255 0
      else if c = CHR ''B'' then Color 0 0 255
      else pixel s)
   \<and> led (led_loop_byte c s) = pixel (led_loop_byte c s)
   \<and> emitted (led_loop_byte c) s =
       (if c = CHR ''R'' then
          [SetPixelColor 0 (Color 255 0 0), Show]
          @ (if debug_mode s then [SerialPrintln ''Set color: Red''] else [])
        else if c = CHR ''G'' then
          [SetPixelColor 0 (Color 0 255 0), Show]
          @ (if debug_mode s then [SerialPrintln ''Set color: Green''] else [])
        else if c = CHR ''B'' then
          [SetPixelColor 0 (Color 0 0 255), Show]
          @ (if debug_mode s then [SerialPrintln ''Set color: Blue''] else [])
        else (if debug_mode s then [SerialPrintln ''Invalid command.''] else []))
       @ [Show, Delay 10]
       @ (if debug_mode s then [SerialPrintln ''Color update sent to NeoPixel.''] else [])
       @ [ClientFlush]"
  by (simp add: emitted_def led_loop_byte_def block_def prim_fields client_flush_fields
      debug_lines_def)

section \<open>The invariant of the single pulses and the rotations\<close>

text \<open>
  C9. The sketch stops all motors in \<^verbatim>\<open>setup()\<close>, every command ends with all
  motors idle and the network code writes no pin (\<open>motors_idle_stopAllMotors\<close>,
  \<open>motors_idle_loop_switch\<close>, \<open>motors_idle_wifi\<close>), so a command always starts with
  the motors idle. From such a state, for every byte other than '7', after each single
  effect of the command at most one motor is on; for '1' to '6' every 200 ms phase has
  exactly one motor on and every 80 ms phase none. Command '7' reaches a point with more
  than one motor on (all four). The start state matters only for the few writes before
  the first delay: a pulse writes its four pins one after the other, so from a state
  with another motor already on, which no run reaches, two motors would be on until
  the write that switches the other one off.
\<close>

theorem C9_at_most_one_energized:
  "(motors_idle s \<and> c \<noteq> CHR ''7'' \<longrightarrow>
      list_all (\<lambda>on. length on \<le> 1)
        (energized_history (pins s) (emitted (loop_switch c) s)))
   \<and> (c \<in> set ''123456'' \<longrightarrow>
      map (\<lambda>(motors, shown, ms). (length motors, ms))
        (phases (outputs_of s) (emitted (loop_switch c) s)) =
      (if c \<in> set ''1234'' then [(1, 200), (0, 80)]
       else [(1, 200), (0, 80), (1, 200), (0, 80), (1, 200), (0, 80), (1, 200), (0, 80)]))
   \<and> \<not> list_all (\<lambda>on. length on \<le> 1)
        (energized_history (pins s) (emitted (loop_switch (CHR ''7'')) s))
   \<and> map (\<lambda>(motors, shown, ms). (length motors, ms))
        (phases (outputs_of s) (emitted (loop_switch (CHR ''7'')) s)) = [(4, 200), (0, 80)]"
proof -
  have "motors_idle s \<Longrightarrow> c \<noteq> CHR ''7'' \<Longrightarrow>
      list_all (\<lambda>on. length on \<le> 1)
        (energized_history (pins s) (emitted (loop_switch c) s))"
    unfolding emitted_loop_switch motors_idle_def by (rule history_at_most_one)
  moreover have "c \<in> set ''123456'' \<Longrightarrow>
      map (\<lambda>(motors, shown, ms). (length motors, ms))
        (phases (outputs_of s) (emitted (loop_switch c) s)) =
      (if c \<in> set ''1234'' then [(1, 200), (0, 80)]
       else [(1, 200), (0, 80), (1, 200), (0, 80), (1, 200), (0, 80), (1, 200), (0, 80)])"
    unfolding emitted_loop_switch
    by (auto simp add: phases_single phases_clockwise phases_counterclockwise)
  moreover have "\<not> list_all (\<lambda>on. length on \<le> 1)
        (energized_history (pins s) (emitted (loop_switch (CHR ''7'')) s))"
    unfolding emitted_loop_switch by (rule history_all_four)
  moreover have "map (\<lambda>(motors, shown, ms). (length motors, ms))
        (phases (outputs_of s) (emitted (loop_switch (CHR ''7'')) s)) = [(4, 200), (0, 80)]"
    unfolding emitted_loop_switch by (simp add: phases_single)
  ultimately show ?thesis by blast
qed

theorem C9_at_most_one_energized_witness:
  "motors_idle bench \<and> CHR ''5'' \<noteq> CHR ''7'' \<and> CHR ''5'' \<in> set ''123456''
   \<and> list_all (\<lambda>on. length on \<le> 1)
        (energized_history (pins bench) (emitted (loop_switch (CHR ''5'')) bench))
   \<and> map (\<lambda>(motors, shown, ms). (length motors, ms))
        (phases (outputs_of bench) (emitted (loop_switch (CHR ''5'')) bench)) =
      [(1, 200), (0, 80), (1, 200), (0, 80), (1, 200), (0, 80), (1, 200), (0, 80)]"
proof -
  have h: "motors_idle bench" "CHR ''5'' \<noteq> CHR ''7''" "CHR ''5'' \<in> set ''123456''"
    by (simp_all add: bench_def motors_idle_def energized_def motor_pins_def)
  show ?thesis
    using h C9_at_most_one_energized [of bench "CHR ''5''"] by simp
qed

section \<open>The colours\<close>

text \<open>
  C10. \<open>stopAllMotors\<close>, the only action that de-energizes all motors, stages and shows
  white (255,255,255). While motor 1 is on the LED shows red (255,0,0), motor 2 green
  (0,255,0), motor 3 blue (0,0,255), motor 4 yellow (255,255,0), in the single pulses
  and in both rotations; the pulse of all motors shows cyan (0,255,255). After every
  pulse the LED is white.
\<close>

theorem C10_indicator_colors:
  "pixel (stopAllMotors s) = Color 255 255 255
   \<and> led (stopAllMotors s) = Color 255 255 255
   \<and> map (\<lambda>(motors, shown, ms). (motors, shown)) (phases (outputs_of s) (emitted upPulse s)) =
       [([MOTOR1_PIN], Color 255 0 0), ([], Color 255 255 255)]
   \<and> map (\<lambda>(motors, shown, ms). (motors, shown)) (phases (outputs_of s) (emitted rightPulse s)) =
       [([MOTOR2_PIN], Color 0 255 0), ([], Color 255 255 255)]
   \<and> map (\<lambda>(motors, shown, ms). (motors, shown)) (phases (outputs_of s) (emitted leftPulse s)) =
       [([MOTOR3_PIN], Color 0 0 255), ([], Color 255 255 255)]
   \<and> map (\<lambda>(motors, shown, ms). (motors, shown)) (phases (outputs_of s) (emitted downPulse s)) =
       [([MOTOR4_PIN], Color 255 255 0), ([], Color 255 255 255)]
   \<and> map (\<lambda>(motors, shown, ms). (motors, shown))
         (phases (outputs_of s) (emitted allMotorsPulse s)) =
       [([MOTOR1_PIN, MOTOR2_PIN, MOTOR3_PIN, MOTOR4_PIN], Color 0 255 255),
        ([], Color 255 255 255)]
   \<and> map (\<lambda>(motors, shown, ms). (motors, shown))
         (phases (outputs_of s) (emitted clockwisePulse s)) =
       [([MOTOR1_PIN], Color 255 0 0), ([], Color 255 255 255),
        ([MOTOR2_PIN], Color 0 255 0), ([], Color 255 255 255),
        ([MOTOR4_PIN], Color 255 255 0), ([], Color 255 255 255),
        ([MOTOR3_PIN], Color 0 0 255), ([], Color 255 255 255)]
   \<and> map (\<lambda>(motors, shown, ms). (motors, shown))
         (phases (outputs_of s) (emitted counterClockwisePulse s)) =
       [([MOTOR1_PIN], Color 255 0 0), ([], Color 255 255 255),
        ([MOTOR3_PIN], Color 0 0 255), ([], Color 255 255 255),
        ([MOTOR4_PIN], Color 255 255 0), ([], Color 255 255 255),
        ([MOTOR2_PIN], Color 0 255 0), ([], Color 255 255 255)]
   \<and> emitted stopAllMotors s =
       [DigitalWrite MOTOR1_PIN LOW, DigitalWrite MOTOR2_PIN LOW,
        DigitalWrite MOTOR3_PIN LOW, DigitalWrite MOTOR4_PIN LOW,
        SetPixelColor 0 (Color 255 255 255), Show]
       @ (if debug_mode s then [SerialPrintln ''All motors stopped.''] else [])"
  by (simp add: stopAllMotors_fields emitted_pulses phases_single phases_clockwise
      phases_counterclockwise)
    (simp add: emitted_def stopAllMotors_fields idle_effects_def debug_lines_def)

end
